theory Spec2Isabelle
  imports Main "HOL-Library.Sublist"
begin

section \<open>Strings as Python uses them\<close>

text \<open>
  Python strings are modelled as \<^typ>\<open>string\<close> (lists of 8-bit characters), which covers
  the ASCII part names, file names and assembler symbols the build engine handles.
  \<open>str.upper\<close> is modelled on the ASCII letters; every other character is kept.
\<close>

definition newline :: char where
  "newline = CHR 0x0A"

definition upper_char :: "char \<Rightarrow> char" where
  "upper_char c =
     (let n = (of_char c :: nat) in if 97 \<le> n \<and> n \<le> 122 then char_of (n - 32) else c)"

definition upper :: "string \<Rightarrow> string" where
  "upper s = map upper_char s"

text \<open>\<open>s.replace(c, "")\<close> for a one-character pattern \<open>c\<close>.\<close>

definition remove_char :: "char \<Rightarrow> string \<Rightarrow> string" where
  "remove_char c s = filter (\<lambda>x. x \<noteq> c) s"

text \<open>\<open>sep.join(xs)\<close>.\<close>

fun join :: "string \<Rightarrow> string list \<Rightarrow> string" where
  "join sep [] = []"
| "join sep [x] = x"
| "join sep (x # y # ys) = x @ sep @ join sep (y # ys)"

text \<open>\<open>s.split(c)\<close> for a one-character separator: never returns the empty list.\<close>

fun split :: "char \<Rightarrow> string \<Rightarrow> string list" where
  "split c [] = [[]]"
| "split c (x # xs) =
     (if x = c then [] # split c xs
      else (case split c xs of [] \<Rightarrow> [[x]] | l # ls \<Rightarrow> (x # l) # ls))"

text \<open>\<open>k in l\<close> on strings: \<open>k\<close> occurs in \<open>l\<close> as a contiguous substring.\<close>

fun contains :: "string \<Rightarrow> string \<Rightarrow> bool" where
  "contains [] k = (k = [])"
| "contains (x # xs) k = (prefix k (x # xs) \<or> contains xs k)"

text \<open>\<open>str(n)\<close> for an integer, as an f-string renders it.\<close>

definition digit_char :: "nat \<Rightarrow> char" where
  "digit_char d = ''0123456789'' ! d"

fun digits :: "nat \<Rightarrow> string" where
  "digits n = (if n < 10 then [digit_char n] else digits (n div 10) @ [digit_char (n mod 10)])"

declare digits.simps [simp del]

definition str_int :: "int \<Rightarrow> string" where
  "str_int i = (if i < 0 then CHR ''-'' # digits (nat (- i)) else digits (nat i))"


section \<open>The chip parameter table\<close>

record chip =
  cpu :: string
  flash_k :: int
  ram_k :: int
  define_macro :: string
  family :: string
  fpu :: bool

definition mk_chip :: "string \<Rightarrow> int \<Rightarrow> int \<Rightarrow> string \<Rightarrow> string \<Rightarrow> bool \<Rightarrow> chip" where
  "mk_chip c f r d fam fp =
     \<lparr>cpu = c, flash_k = f, ram_k = r, define_macro = d, family = fam, fpu = fp\<rparr>"

text \<open>
  \<open>CHIP_DB\<close> is a Python dict; its insertion order decides which entry a scan over
  the keys finds first, so it is kept as an association list in source order.
\<close>

definition CHIP_DB :: "(string \<times> chip) list" where
  "CHIP_DB =
   [(''STM32F103C8'', mk_chip ''cortex-m3'' 64 20 ''STM32F103xB'' ''f1'' False),
    (''STM32F103CB'', mk_chip ''cortex-m3'' 128 20 ''STM32F103xB'' ''f1'' False),
    (''STM32F103RB'', mk_chip ''cortex-m3'' 128 20 ''STM32F103xB'' ''f1'' False),
    (''STM32F103RC'', mk_chip ''cortex-m3'' 256 48 ''STM32F103xE'' ''f1'' False),
    (''STM32F103RE'', mk_chip ''cortex-m3'' 512 64 ''STM32F103xE'' ''f1'' False),
    (''STM32F103ZE'', mk_chip ''cortex-m3'' 512 64 ''STM32F103xE'' ''f1'' False),
    (''STM32F103VE'', mk_chip ''cortex-m3'' 512 64 ''STM32F103xE'' ''f1'' False),
    (''STM32F100RB'', mk_chip ''cortex-m3'' 128 8 ''STM32F100xB'' ''f1'' False),
    (''STM32F105'', mk_chip ''cortex-m3'' 256 64 ''STM32F105xC'' ''f1'' False),
    (''STM32F107'', mk_chip ''cortex-m3'' 256 64 ''STM32F107xC'' ''f1'' False),
    (''STM32F401CC'', mk_chip ''cortex-m4'' 256 64 ''STM32F401xC'' ''f4'' True),
    (''STM32F401CE'', mk_chip ''cortex-m4'' 512 96 ''STM32F401xE'' ''f4'' True),
    (''STM32F407VE'', mk_chip ''cortex-m4'' 512 128 ''STM32F407xx'' ''f4'' True),
    (''STM32F407VG'', mk_chip ''cortex-m4'' 1024 128 ''STM32F407xx'' ''f4'' True),
    (''STM32F407ZG'', mk_chip ''cortex-m4'' 1024 128 ''STM32F407xx'' ''f4'' True),
    (''STM32F411CE'', mk_chip ''cortex-m4'' 512 128 ''STM32F411xE'' ''f4'' True),
    (''STM32F429ZI'', mk_chip ''cortex-m4'' 2048 256 ''STM32F429xx'' ''f4'' True),
    (''STM32F446RE'', mk_chip ''cortex-m4'' 512 128 ''STM32F446xx'' ''f4'' True),
    (''STM32F030F4'', mk_chip ''cortex-m0'' 16 4 ''STM32F030x6'' ''f0'' False),
    (''STM32F030C8'', mk_chip ''cortex-m0'' 64 8 ''STM32F030x8'' ''f0'' False),
    (''STM32F072RB'', mk_chip ''cortex-m0'' 128 16 ''STM32F072xB'' ''f0'' False),
    (''STM32F303CC'', mk_chip ''cortex-m4'' 256 40 ''STM32F303xC'' ''f3'' True),
    (''STM32F303RE'', mk_chip ''cortex-m4'' 512 64 ''STM32F303xE'' ''f3'' True)]"

definition chip_keys :: "string list" where
  "chip_keys = map fst CHIP_DB"


section \<open>The chip resolver\<close>

text \<open>\<open>chip_name.upper().replace("-", "").replace(" ", "")\<close>\<close>

definition normalize_name :: "string \<Rightarrow> string" where
  "normalize_name chip_name = remove_char CHR '' '' (remove_char CHR ''-'' (upper chip_name))"

text \<open>\<open>name[:-suffix_len] if len(name) > suffix_len else name\<close>\<close>

definition strip_suffix :: "nat \<Rightarrow> string \<Rightarrow> string" where
  "strip_suffix suffix_len name =
     (if length name > suffix_len then take (length name - suffix_len) name else name)"

definition is_upper_AZ :: "char \<Rightarrow> bool" where
  "is_upper_AZ c = (let n = (of_char c :: nat) in 65 \<le> n \<and> n \<le> 90)"

definition is_digit :: "char \<Rightarrow> bool" where
  "is_digit c = (let n = (of_char c :: nat) in 48 \<le> n \<and> n \<le> 57)"

text \<open>
  \<open>re.match(r'(STM32[A-Z]\d{3})', name)\<close>: the pattern is anchored at the start of
  \<open>name\<close> and, when it matches, group 1 is the first nine characters.
\<close>

definition re_match_series :: "string \<Rightarrow> string option" where
  "re_match_series name =
     (if length name \<ge> 9 \<and> take 5 name = ''STM32'' \<and> is_upper_AZ (name ! 5)
         \<and> is_digit (name ! 6) \<and> is_digit (name ! 7) \<and> is_digit (name ! 8)
      then Some (take 9 name) else None)"

text \<open>
  \<open>_lookup_chip\<close>: exact key, then the name without its last two or its last
  character, then the first key that is a prefix of the name, then the first key that
  starts with the extracted series prefix; \<open>None\<close> when nothing matches.
\<close>

definition lookup_chip :: "string \<Rightarrow> chip option" where
  "lookup_chip chip_name =
     (let name = normalize_name chip_name in
      case map_of CHIP_DB name of
        Some c \<Rightarrow> Some c
      | None \<Rightarrow>
     (case map_of CHIP_DB (strip_suffix 2 name) of
        Some c \<Rightarrow> Some c
      | None \<Rightarrow>
     (case map_of CHIP_DB (strip_suffix 1 name) of
        Some c \<Rightarrow> Some c
      | None \<Rightarrow>
     (case find (\<lambda>(key, c). prefix key name) CHIP_DB of
        Some (key, c) \<Rightarrow> Some c
      | None \<Rightarrow>
     (case re_match_series name of
        None \<Rightarrow> None
      | Some p \<Rightarrow>
         (case find (\<lambda>(key, c). prefix p key) CHIP_DB of
            Some (key, c) \<Rightarrow> Some c
          | None \<Rightarrow> None))))))"


section \<open>The linker script synthesizer\<close>

text \<open>A text given line by line: every line is followed by a newline character.\<close>

definition text_lines :: "string list \<Rightarrow> string" where
  "text_lines ls = concat (map (\<lambda>l. l @ [newline]) ls)"

text \<open>
  \<open>_gen_linker_script\<close>: the f-string of the source, with \<open>{flash_k}\<close> and
  \<open>{ram_k}\<close> rendered by \<open>str\<close>.
\<close>

definition gen_linker_script :: "int \<Rightarrow> int \<Rightarrow> string" where
  "gen_linker_script flash_kb ram_kb = text_lines
    [''MEMORY {'',
     ''  FLASH (rx)  : ORIGIN = 0x08000000, LENGTH = '' @ str_int flash_kb @ ''K'',
     ''  RAM   (xrw) : ORIGIN = 0x20000000, LENGTH = '' @ str_int ram_kb @ ''K'',
     ''}'',
     ''_estack = ORIGIN(RAM) + LENGTH(RAM);'',
     ''_Min_Heap_Size = 0x200;'',
     ''_Min_Stack_Size = 0x400;'',
     ''SECTIONS {'',
     ''  .isr_vector : { KEEP('' @ ''*(.isr_vector)) } >FLASH'',
     ''  .text : { *(.text*) *(.rodata*) . = ALIGN(4); _etext = .; } >FLASH'',
     ''  .init : { KEEP('' @ ''*(.init)) } >FLASH'',
     ''  .fini : { KEEP('' @ ''*(.fini)) } >FLASH'',
     ''  .init_array : { KEEP('' @ ''*(.init_array*)) } >FLASH'',
     ''  .fini_array : { KEEP('' @ ''*(.fini_array*)) } >FLASH'',
     ''  .data : AT(_etext) { _sdata = .; *(.data*) . = ALIGN(4); _edata = .; } >RAM'',
     ''  .bss : { _sbss = .; *(.bss*) *(COMMON) . = ALIGN(4); _ebss = .; } >RAM'',
     ''  ._user_heap_stack : { . = ALIGN(8); . = . + _Min_Heap_Size; . = . + _Min_Stack_Size; . = ALIGN(8); } >RAM'',
     ''  /DISCARD/ : { *(.ARM.*) }'',
     ''}'']"


text \<open>
  Reading a line of the \<open>SECTIONS\<close> block: the name of the output section is the text
  after the two-space indent, up to the first space.
\<close>

definition section_name :: "string \<Rightarrow> string" where
  "section_name l = takeWhile (\<lambda>c. c \<noteq> CHR '' '') (drop 2 l)"


section \<open>The startup code synthesizer\<close>

text \<open>
  An entry of an interrupt table is \<open>None\<close> or a handler name. The source tests an entry
  with \<open>if name\<close>, which is false for \<open>None\<close> and for the empty string.
\<close>

definition truthy :: "string option \<Rightarrow> bool" where
  "truthy name = (case name of None \<Rightarrow> False | Some n \<Rightarrow> n \<noteq> [])"

text \<open>\<open>f"  .word {name}" if name else "  .word 0  /* reserved */"\<close>\<close>

definition vec_line :: "string option \<Rightarrow> string" where
  "vec_line name =
     (case name of
        None \<Rightarrow> ''  .word 0  /* reserved */''
      | Some n \<Rightarrow> if n \<noteq> [] then ''  .word '' @ n else ''  .word 0  /* reserved */'')"

definition vec_lines :: "string option list \<Rightarrow> string list" where
  "vec_lines irq_names = map vec_line irq_names"

text \<open>\<open>f".weak {name}\n.thumb_set {name}, Default_Handler"\<close>\<close>

definition weak_line :: "string \<Rightarrow> string" where
  "weak_line n = ''.weak '' @ n @ [newline] @ ''.thumb_set '' @ n @ '', Default_Handler''"

definition weak_lines :: "string option list \<Rightarrow> string list" where
  "weak_lines irq_names = map (\<lambda>name. weak_line (the name)) (filter truthy irq_names)"

text \<open>The fixed text of the template before \<open>{vec_section}\<close>.\<close>

definition startup_vectors_head :: "string \<Rightarrow> string list" where
  \<open>startup_vectors_head core =
    [''.syntax unified'',
     ''.cpu '' @ core,
     ''.thumb'',
     '''',
     ''.global g_pfnVectors'',
     ''.global Default_Handler'',
     '''',
     ''.section .isr_vector,"a",%progbits'',
     ''.type g_pfnVectors, %object'',
     ''g_pfnVectors:'',
     ''  .word _estack'',
     ''  .word Reset_Handler'',
     ''  .word NMI_Handler'',
     ''  .word HardFault_Handler'',
     ''  .word MemManage_Handler'',
     ''  .word BusFault_Handler'',
     ''  .word UsageFault_Handler'',
     ''  .word 0,0,0,0'',
     ''  .word SVC_Handler'',
     ''  .word DebugMon_Handler'',
     ''  .word 0'',
     ''  .word PendSV_Handler'',
     ''  .word SysTick_Handler'']\<close>

text \<open>The fixed text between \<open>{vec_section}\<close> and \<open>{weak_section}\<close>.\<close>

definition startup_handlers :: "string list" where
  \<open>startup_handlers =
    ['''',
     ''.section .text.Reset_Handler'',
     ''.weak Reset_Handler'',
     ''.type Reset_Handler, %function'',
     ''Reset_Handler:'',
     ''  ldr r0, =_estack'',
     ''  mov sp, r0'',
     ''  ldr r0, =_sdata'',
     ''  ldr r1, =_edata'',
     ''  ldr r2, =_etext'',
     ''  b 2f'',
     ''1: ldr r3, [r2], #4'',
     ''  str r3, [r0], #4'',
     ''2: cmp r0, r1'',
     ''  blt 1b'',
     ''  ldr r0, =_sbss'',
     ''  ldr r1, =_ebss'',
     ''  movs r2, #0'',
     ''  b 4f'',
     ''3: str r2, [r0], #4'',
     ''4: cmp r0, r1'',
     ''  blt 3b'',
     ''  bl SystemInit'',
     ''  bl main'',
     ''  b .'',
     '''',
     ''.section .text.Default_Handler,"ax",%progbits'',
     ''Default_Handler: b .'',
     '''',
     ''.weak NMI_Handler'',
     ''.thumb_set NMI_Handler, Default_Handler'',
     ''.weak HardFault_Handler'',
     ''.thumb_set HardFault_Handler, Default_Handler'',
     ''.weak MemManage_Handler'',
     ''.thumb_set MemManage_Handler, Default_Handler'',
     ''.weak BusFault_Handler'',
     ''.thumb_set BusFault_Handler, Default_Handler'',
     ''.weak UsageFault_Handler'',
     ''.thumb_set UsageFault_Handler, Default_Handler'',
     ''.weak SVC_Handler'',
     ''.thumb_set SVC_Handler, Default_Handler'',
     ''.weak DebugMon_Handler'',
     ''.thumb_set DebugMon_Handler, Default_Handler'',
     ''.weak PendSV_Handler'',
     ''.thumb_set PendSV_Handler, Default_Handler'',
     ''.weak SysTick_Handler'',
     ''.thumb_set SysTick_Handler, Default_Handler'',
     ''.weak SystemInit'',
     ''.thumb_set SystemInit, Default_Handler'']\<close>

text \<open>
  \<open>_gen_startup\<close>: the vector lines and the weak aliases are joined with newlines and
  put into the template; the template puts one newline after each of the two sections.
\<close>

definition gen_startup :: "string \<Rightarrow> string option list \<Rightarrow> string" where
  "gen_startup core irq_names =
     (let vec_section = join [newline] (vec_lines irq_names);
          weak_section = join [newline] (weak_lines irq_names)
      in text_lines (startup_vectors_head core) @ vec_section @ [newline]
         @ text_lines startup_handlers @ weak_section @ [newline])"


text \<open>
  Reading the generated assembly back. The vector table is the block of lines after the
  label \<open>g_pfnVectors:\<close> up to the next empty line; a \<open>.word\<close> line holds the words
  separated by commas, up to the first space (where a comment may follow). A weak alias to
  the default handler is a line \<open>.weak N\<close> directly followed by the line
  \<open>.thumb_set N, Default_Handler\<close>.
\<close>

definition word_operands :: "string \<Rightarrow> string list" where
  "word_operands l =
     (if prefix ''  .word '' l
      then split CHR '','' (takeWhile (\<lambda>c. c \<noteq> CHR '' '') (drop 8 l))
      else [])"

definition vector_table :: "string \<Rightarrow> string list" where
  "vector_table asm =
     concat (map word_operands
       (takeWhile (\<lambda>l. l \<noteq> [])
          (tl (dropWhile (\<lambda>l. l \<noteq> ''g_pfnVectors:'') (split newline asm)))))"

fun pairs :: "'a list \<Rightarrow> ('a \<times> 'a) list" where
  "pairs (x # y # zs) = (x, y) # pairs (y # zs)"
| "pairs zs = []"

definition is_weak_alias :: "string \<times> string \<Rightarrow> bool" where
  "is_weak_alias p =
     (prefix ''.weak '' (fst p)
      \<and> snd p = ''.thumb_set '' @ drop 6 (fst p) @ '', Default_Handler'')"

definition weak_aliases :: "string \<Rightarrow> string list" where
  "weak_aliases asm =
     map (\<lambda>p. drop 6 (fst p)) (filter is_weak_alias (pairs (split newline asm)))"

text \<open>
  A handler name is an assembler symbol: not empty, on one line, without spaces or commas.
  An entry of an interrupt table is well named when it is \<open>None\<close> or such a name.
\<close>

definition is_symbol :: "string \<Rightarrow> bool" where
  "is_symbol n =
     (n \<noteq> [] \<and> newline \<notin> set n \<and> CHR '' '' \<notin> set n \<and> CHR '','' \<notin> set n)"

definition well_named :: "string option \<Rightarrow> bool" where
  "well_named e = (case e of None \<Rightarrow> True | Some n \<Rightarrow> is_symbol n)"

text \<open>The word a table entry stands for in its slot.\<close>

definition slot_word :: "string option \<Rightarrow> string" where
  "slot_word e = (case e of None \<Rightarrow> ''0'' | Some n \<Rightarrow> n)"


text \<open>
  The names the weak aliases are generated for, and the lines of the weak-alias section,
  two for each name.
\<close>

definition names_of :: "string option list \<Rightarrow> string list" where
  "names_of irq_names = map the (filter truthy irq_names)"

definition alias_lines :: "string list \<Rightarrow> string list" where
  "alias_lines ns =
     concat (map (\<lambda>n. [''.weak '' @ n, ''.thumb_set '' @ n @ '', Default_Handler'']) ns)"


section \<open>The family tables\<close>

definition F1_IRQ_NAMES :: "string option list" where
  "F1_IRQ_NAMES =
    [Some ''WWDG_IRQHandler'', Some ''PVD_IRQHandler'', Some ''TAMPER_IRQHandler'',
     Some ''RTC_IRQHandler'', Some ''FLASH_IRQHandler'', Some ''RCC_IRQHandler'',
     Some ''EXTI0_IRQHandler'', Some ''EXTI1_IRQHandler'', Some ''EXTI2_IRQHandler'',
     Some ''EXTI3_IRQHandler'', Some ''EXTI4_IRQHandler'', Some ''DMA1_Channel1_IRQHandler'',
     Some ''DMA1_Channel2_IRQHandler'', Some ''DMA1_Channel3_IRQHandler'',
     Some ''DMA1_Channel4_IRQHandler'', Some ''DMA1_Channel5_IRQHandler'',
     Some ''DMA1_Channel6_IRQHandler'', Some ''DMA1_Channel7_IRQHandler'',
     Some ''ADC1_2_IRQHandler'', Some ''USB_HP_CAN1_TX_IRQHandler'',
     Some ''USB_LP_CAN1_RX0_IRQHandler'', Some ''CAN1_RX1_IRQHandler'',
     Some ''CAN1_SCE_IRQHandler'', Some ''EXTI9_5_IRQHandler'', Some ''TIM1_BRK_IRQHandler'',
     Some ''TIM1_UP_IRQHandler'', Some ''TIM1_TRG_COM_IRQHandler'',
     Some ''TIM1_CC_IRQHandler'', Some ''TIM2_IRQHandler'', Some ''TIM3_IRQHandler'',
     Some ''TIM4_IRQHandler'', Some ''I2C1_EV_IRQHandler'', Some ''I2C1_ER_IRQHandler'',
     Some ''I2C2_EV_IRQHandler'', Some ''I2C2_ER_IRQHandler'', Some ''SPI1_IRQHandler'',
     Some ''SPI2_IRQHandler'', Some ''USART1_IRQHandler'', Some ''USART2_IRQHandler'',
     Some ''USART3_IRQHandler'', Some ''EXTI15_10_IRQHandler'', Some ''RTC_Alarm_IRQHandler'',
     Some ''USBWakeUp_IRQHandler'', Some ''TIM8_BRK_IRQHandler'', Some ''TIM8_UP_IRQHandler'',
     Some ''TIM8_TRG_COM_IRQHandler'', Some ''TIM8_CC_IRQHandler'', Some ''ADC3_IRQHandler'',
     Some ''FSMC_IRQHandler'', Some ''SDIO_IRQHandler'', Some ''TIM5_IRQHandler'',
     Some ''SPI3_IRQHandler'', Some ''UART4_IRQHandler'', Some ''UART5_IRQHandler'',
     Some ''TIM6_IRQHandler'', Some ''TIM7_IRQHandler'', Some ''DMA2_Channel1_IRQHandler'',
     Some ''DMA2_Channel2_IRQHandler'', Some ''DMA2_Channel3_IRQHandler'',
     Some ''DMA2_Channel4_5_IRQHandler'', None, None, None, None, None, None, None, None]"

definition F0_IRQ_NAMES :: "string option list" where
  "F0_IRQ_NAMES =
    [Some ''WWDG_IRQHandler'', Some ''PVD_VDDIO2_IRQHandler'', Some ''RTC_IRQHandler'',
     Some ''FLASH_IRQHandler'', Some ''RCC_CRS_IRQHandler'', Some ''EXTI0_1_IRQHandler'',
     Some ''EXTI2_3_IRQHandler'', Some ''EXTI4_15_IRQHandler'', Some ''TSC_IRQHandler'',
     Some ''DMA1_Channel1_IRQHandler'', Some ''DMA1_Channel2_3_IRQHandler'',
     Some ''DMA1_Channel4_5_6_7_IRQHandler'', Some ''ADC1_COMP_IRQHandler'',
     Some ''TIM1_BRK_UP_TRG_COM_IRQHandler'', Some ''TIM1_CC_IRQHandler'',
     Some ''TIM2_IRQHandler'', Some ''TIM3_IRQHandler'', Some ''TIM6_DAC_IRQHandler'',
     Some ''TIM7_IRQHandler'', Some ''TIM14_IRQHandler'', Some ''TIM15_IRQHandler'',
     Some ''TIM16_IRQHandler'', Some ''TIM17_IRQHandler'', Some ''I2C1_IRQHandler'',
     Some ''I2C2_IRQHandler'', Some ''SPI1_IRQHandler'', Some ''SPI2_IRQHandler'',
     Some ''USART1_IRQHandler'', Some ''USART2_IRQHandler'', Some ''USART3_4_IRQHandler'',
     Some ''CEC_CAN_IRQHandler'', Some ''USB_IRQHandler'']"

definition F3_IRQ_NAMES :: "string option list" where
  "F3_IRQ_NAMES =
    [Some ''WWDG_IRQHandler'', Some ''PVD_IRQHandler'', Some ''TAMP_STAMP_IRQHandler'',
     Some ''RTC_WKUP_IRQHandler'', Some ''FLASH_IRQHandler'', Some ''RCC_IRQHandler'',
     Some ''EXTI0_IRQHandler'', Some ''EXTI1_IRQHandler'', Some ''EXTI2_TSC_IRQHandler'',
     Some ''EXTI3_IRQHandler'', Some ''EXTI4_IRQHandler'', Some ''DMA1_Channel1_IRQHandler'',
     Some ''DMA1_Channel2_IRQHandler'', Some ''DMA1_Channel3_IRQHandler'',
     Some ''DMA1_Channel4_IRQHandler'', Some ''DMA1_Channel5_IRQHandler'',
     Some ''DMA1_Channel6_IRQHandler'', Some ''DMA1_Channel7_IRQHandler'',
     Some ''ADC1_2_IRQHandler'', Some ''USB_HP_CAN1_TX_IRQHandler'',
     Some ''USB_LP_CAN1_RX0_IRQHandler'', Some ''CAN1_RX1_IRQHandler'',
     Some ''CAN1_SCE_IRQHandler'', Some ''EXTI9_5_IRQHandler'',
     Some ''TIM1_BRK_TIM15_IRQHandler'', Some ''TIM1_UP_TIM16_IRQHandler'',
     Some ''TIM1_TRG_COM_TIM17_IRQHandler'', Some ''TIM1_CC_IRQHandler'',
     Some ''TIM2_IRQHandler'', Some ''TIM3_IRQHandler'', Some ''TIM4_IRQHandler'',
     Some ''I2C1_EV_IRQHandler'', Some ''I2C1_ER_IRQHandler'', Some ''I2C2_EV_IRQHandler'',
     Some ''I2C2_ER_IRQHandler'', Some ''SPI1_IRQHandler'', Some ''SPI2_IRQHandler'',
     Some ''USART1_IRQHandler'', Some ''USART2_IRQHandler'', Some ''USART3_IRQHandler'',
     Some ''EXTI15_10_IRQHandler'', Some ''RTC_Alarm_IRQHandler'',
     Some ''USBWakeUp_IRQHandler'', Some ''TIM8_BRK_IRQHandler'', Some ''TIM8_UP_IRQHandler'',
     Some ''TIM8_TRG_COM_IRQHandler'', Some ''TIM8_CC_IRQHandler'', Some ''ADC3_IRQHandler'',
     None, None, Some ''SPI3_IRQHandler'', Some ''UART4_IRQHandler'',
     Some ''UART5_IRQHandler'', Some ''TIM6_DAC_IRQHandler'', Some ''TIM7_IRQHandler'',
     Some ''DMA2_Channel1_IRQHandler'', Some ''DMA2_Channel2_IRQHandler'',
     Some ''DMA2_Channel3_IRQHandler'', Some ''DMA2_Channel4_IRQHandler'',
     Some ''DMA2_Channel5_IRQHandler'', Some ''ADC4_IRQHandler'', None, None,
     Some ''COMP1_2_3_IRQHandler'', Some ''COMP4_5_6_IRQHandler'', Some ''COMP7_IRQHandler'',
     None, None, None, None, None, Some ''I2C3_EV_IRQHandler'', Some ''I2C3_ER_IRQHandler'',
     Some ''USB_HP_IRQHandler'', Some ''USB_LP_IRQHandler'', Some ''USBWakeUp_RMP_IRQHandler'',
     Some ''TIM20_BRK_IRQHandler'', Some ''TIM20_UP_IRQHandler'',
     Some ''TIM20_TRG_COM_IRQHandler'', Some ''TIM20_CC_IRQHandler'', Some ''FPU_IRQHandler'',
     Some ''SPI4_IRQHandler'']"

definition F4_IRQ_NAMES :: "string option list" where
  "F4_IRQ_NAMES =
    [Some ''WWDG_IRQHandler'', Some ''PVD_IRQHandler'', Some ''TAMP_STAMP_IRQHandler'',
     Some ''RTC_WKUP_IRQHandler'', Some ''FLASH_IRQHandler'', Some ''RCC_IRQHandler'',
     Some ''EXTI0_IRQHandler'', Some ''EXTI1_IRQHandler'', Some ''EXTI2_IRQHandler'',
     Some ''EXTI3_IRQHandler'', Some ''EXTI4_IRQHandler'', Some ''DMA1_Stream0_IRQHandler'',
     Some ''DMA1_Stream1_IRQHandler'', Some ''DMA1_Stream2_IRQHandler'',
     Some ''DMA1_Stream3_IRQHandler'', Some ''DMA1_Stream4_IRQHandler'',
     Some ''DMA1_Stream5_IRQHandler'', Some ''DMA1_Stream6_IRQHandler'',
     Some ''ADC_IRQHandler'', Some ''CAN1_TX_IRQHandler'', Some ''CAN1_RX0_IRQHandler'',
     Some ''CAN1_RX1_IRQHandler'', Some ''CAN1_SCE_IRQHandler'', Some ''EXTI9_5_IRQHandler'',
     Some ''TIM1_BRK_TIM9_IRQHandler'', Some ''TIM1_UP_TIM10_IRQHandler'',
     Some ''TIM1_TRG_COM_TIM11_IRQHandler'', Some ''TIM1_CC_IRQHandler'',
     Some ''TIM2_IRQHandler'', Some ''TIM3_IRQHandler'', Some ''TIM4_IRQHandler'',
     Some ''I2C1_EV_IRQHandler'', Some ''I2C1_ER_IRQHandler'', Some ''I2C2_EV_IRQHandler'',
     Some ''I2C2_ER_IRQHandler'', Some ''SPI1_IRQHandler'', Some ''SPI2_IRQHandler'',
     Some ''USART1_IRQHandler'', Some ''USART2_IRQHandler'', Some ''USART3_IRQHandler'',
     Some ''EXTI15_10_IRQHandler'', Some ''RTC_Alarm_IRQHandler'',
     Some ''OTG_FS_WKUP_IRQHandler'', Some ''TIM8_BRK_TIM12_IRQHandler'',
     Some ''TIM8_UP_TIM13_IRQHandler'', Some ''TIM8_TRG_COM_TIM14_IRQHandler'',
     Some ''TIM8_CC_IRQHandler'', Some ''DMA1_Stream7_IRQHandler'', Some ''FSMC_IRQHandler'',
     Some ''SDIO_IRQHandler'', Some ''TIM5_IRQHandler'', Some ''SPI3_IRQHandler'',
     Some ''UART4_IRQHandler'', Some ''UART5_IRQHandler'', Some ''TIM6_DAC_IRQHandler'',
     Some ''TIM7_IRQHandler'', Some ''DMA2_Stream0_IRQHandler'',
     Some ''DMA2_Stream1_IRQHandler'', Some ''DMA2_Stream2_IRQHandler'',
     Some ''DMA2_Stream3_IRQHandler'', Some ''DMA2_Stream4_IRQHandler'',
     Some ''ETH_IRQHandler'', Some ''ETH_WKUP_IRQHandler'', Some ''CAN2_TX_IRQHandler'',
     Some ''CAN2_RX0_IRQHandler'', Some ''CAN2_RX1_IRQHandler'', Some ''CAN2_SCE_IRQHandler'',
     Some ''OTG_FS_IRQHandler'', Some ''DMA2_Stream5_IRQHandler'',
     Some ''DMA2_Stream6_IRQHandler'', Some ''DMA2_Stream7_IRQHandler'',
     Some ''USART6_IRQHandler'', Some ''I2C3_EV_IRQHandler'', Some ''I2C3_ER_IRQHandler'',
     Some ''OTG_HS_EP1_OUT_IRQHandler'', Some ''OTG_HS_EP1_IN_IRQHandler'',
     Some ''OTG_HS_WKUP_IRQHandler'', Some ''OTG_HS_IRQHandler'', Some ''DCMI_IRQHandler'',
     None, Some ''HASH_RNG_IRQHandler'', Some ''FPU_IRQHandler'']"

definition FAMILY_IRQ_NAMES :: "(string \<times> string option list) list" where
  "FAMILY_IRQ_NAMES =
    [(''f0'', F0_IRQ_NAMES), (''f1'', F1_IRQ_NAMES), (''f3'', F3_IRQ_NAMES), (''f4'', F4_IRQ_NAMES)]"

definition FAMILY_HAL_FILES :: "(string \<times> string list) list" where
  "FAMILY_HAL_FILES =
    [(''f1'',
      [''stm32f1xx_hal.c'', ''stm32f1xx_hal_cortex.c'', ''stm32f1xx_hal_rcc.c'',
       ''stm32f1xx_hal_rcc_ex.c'', ''stm32f1xx_hal_gpio.c'', ''stm32f1xx_hal_gpio_ex.c'',
       ''stm32f1xx_hal_uart.c'', ''stm32f1xx_hal_usart.c'', ''stm32f1xx_hal_tim.c'',
       ''stm32f1xx_hal_tim_ex.c'', ''stm32f1xx_hal_adc.c'', ''stm32f1xx_hal_adc_ex.c'',
       ''stm32f1xx_hal_i2c.c'', ''stm32f1xx_hal_dma.c'', ''stm32f1xx_hal_pwr.c'',
       ''stm32f1xx_hal_flash.c'', ''stm32f1xx_hal_flash_ex.c'', ''stm32f1xx_hal_exti.c'',
       ''stm32f1xx_hal_spi.c'', ''system_stm32f1xx.c'']),
     (''f4'',
      [''stm32f4xx_hal.c'', ''stm32f4xx_hal_cortex.c'', ''stm32f4xx_hal_rcc.c'',
       ''stm32f4xx_hal_rcc_ex.c'', ''stm32f4xx_hal_gpio.c'', ''stm32f4xx_hal_uart.c'',
       ''stm32f4xx_hal_usart.c'', ''stm32f4xx_hal_tim.c'', ''stm32f4xx_hal_tim_ex.c'',
       ''stm32f4xx_hal_adc.c'', ''stm32f4xx_hal_adc_ex.c'', ''stm32f4xx_hal_i2c.c'',
       ''stm32f4xx_hal_i2c_ex.c'', ''stm32f4xx_hal_dma.c'', ''stm32f4xx_hal_dma_ex.c'',
       ''stm32f4xx_hal_pwr.c'', ''stm32f4xx_hal_pwr_ex.c'', ''stm32f4xx_hal_flash.c'',
       ''stm32f4xx_hal_flash_ex.c'', ''stm32f4xx_hal_exti.c'', ''stm32f4xx_hal_spi.c'',
       ''system_stm32f4xx.c'']),
     (''f0'',
      [''stm32f0xx_hal.c'', ''stm32f0xx_hal_cortex.c'', ''stm32f0xx_hal_rcc.c'',
       ''stm32f0xx_hal_rcc_ex.c'', ''stm32f0xx_hal_gpio.c'', ''stm32f0xx_hal_uart.c'',
       ''stm32f0xx_hal_usart.c'', ''stm32f0xx_hal_tim.c'', ''stm32f0xx_hal_tim_ex.c'',
       ''stm32f0xx_hal_adc.c'', ''stm32f0xx_hal_adc_ex.c'', ''stm32f0xx_hal_i2c.c'',
       ''stm32f0xx_hal_i2c_ex.c'', ''stm32f0xx_hal_dma.c'', ''stm32f0xx_hal_pwr.c'',
       ''stm32f0xx_hal_pwr_ex.c'', ''stm32f0xx_hal_flash.c'', ''stm32f0xx_hal_flash_ex.c'',
       ''stm32f0xx_hal_spi.c'', ''system_stm32f0xx.c'']),
     (''f3'',
      [''stm32f3xx_hal.c'', ''stm32f3xx_hal_cortex.c'', ''stm32f3xx_hal_rcc.c'',
       ''stm32f3xx_hal_rcc_ex.c'', ''stm32f3xx_hal_gpio.c'', ''stm32f3xx_hal_uart.c'',
       ''stm32f3xx_hal_usart.c'', ''stm32f3xx_hal_tim.c'', ''stm32f3xx_hal_tim_ex.c'',
       ''stm32f3xx_hal_adc.c'', ''stm32f3xx_hal_adc_ex.c'', ''stm32f3xx_hal_i2c.c'',
       ''stm32f3xx_hal_i2c_ex.c'', ''stm32f3xx_hal_dma.c'', ''stm32f3xx_hal_pwr.c'',
       ''stm32f3xx_hal_pwr_ex.c'', ''stm32f3xx_hal_flash.c'', ''stm32f3xx_hal_flash_ex.c'',
       ''stm32f3xx_hal_spi.c'', ''system_stm32f3xx.c''])]"

text \<open>\<open>d.get(key, default)\<close> on a dict kept as an association list.\<close>

definition dict_get :: "('k \<times> 'v) list \<Rightarrow> 'k \<Rightarrow> 'v \<Rightarrow> 'v" where
  "dict_get d key dflt = (case map_of d key of Some v \<Rightarrow> v | None \<Rightarrow> dflt)"


section \<open>Files, paths and external tools\<close>

text \<open>
  The file system is a map from path strings to what \<open>stat\<close> would report: a file or a
  directory exists exactly when its path is mapped. \<open>st_mtime\<close> is the number \<open>stat\<close>
  reports; the engine only compares two of them, so a natural number stands for it.
  \<open>now\<close> is the time a write stamps on a file. \<open>utf8_stdout\<close> says whether standard
  output can encode what the engine prints: all its notices contain emoji and Chinese
  text, and \<open>print\<close> raises \<open>UnicodeEncodeError\<close> when it cannot.
\<close>

record file_stat =
  st_mtime :: nat
  st_data :: string
  st_is_dir :: bool

record world =
  files :: "string \<rightharpoonup> file_stat"
  now :: nat
  utf8_stdout :: bool

datatype error =
    FileNotFoundError string
  | NotADirectoryError string
  | IsADirectoryError string
  | FileExistsError string
  | UnicodeEncodeError
  | KeyError string

text \<open>
  Paths are kept relative to \<open>BASE_DIR\<close>, the directory of \<open>config.py\<close>;
  \<open>a / b\<close> of \<open>pathlib\<close> joins with a slash.
\<close>

definition path_join :: "string \<Rightarrow> string \<Rightarrow> string" where
  "path_join d f = d @ ''/'' @ f"

definition WORKSPACE :: string where
  "WORKSPACE = ''workspace''"

definition BUILD_DIR :: string where
  "BUILD_DIR = path_join WORKSPACE ''build''"

definition HAL_DIR :: string where
  "HAL_DIR = path_join WORKSPACE ''hal''"

definition ARM_GCC :: string where
  "ARM_GCC = ''arm-none-eabi-gcc''"

definition ARM_OBJCOPY :: string where
  "ARM_OBJCOPY = ''arm-none-eabi-objcopy''"

definition ARM_AR :: string where
  "ARM_AR = ''arm-none-eabi-ar''"

definition DEFAULT_CHIP :: string where
  "DEFAULT_CHIP = ''STM32F103C8T6''"

text \<open>
  \<open>Path.name\<close>: the last component; \<open>Path.stem\<close>: the name without its last suffix;
  \<open>Path.parent\<close>: the path without its last component.
\<close>

definition path_name :: "string \<Rightarrow> string" where
  "path_name p = last (split CHR ''/'' p)"

fun rfind :: "char \<Rightarrow> string \<Rightarrow> nat option" where
  "rfind c [] = None"
| "rfind c (x # xs) =
     (case rfind c xs of Some i \<Rightarrow> Some (Suc i) | None \<Rightarrow> if x = c then Some 0 else None)"

definition path_stem :: "string \<Rightarrow> string" where
  "path_stem p =
     (let name = path_name p in
      case rfind CHR ''.'' name of
        None \<Rightarrow> name
      | Some i \<Rightarrow> if 0 < i \<and> i < length name - 1 then take i name else name)"

definition path_parent :: "string \<Rightarrow> string" where
  "path_parent p = (case rfind CHR ''/'' p of None \<Rightarrow> ''.'' | Some i \<Rightarrow> take i p)"

text \<open>\<open>Path.exists\<close> and \<open>Path.is_dir\<close>.\<close>

definition exists_path :: "world \<Rightarrow> string \<Rightarrow> bool" where
  "exists_path w p = (files w p \<noteq> None)"

definition is_dir :: "world \<Rightarrow> string \<Rightarrow> bool" where
  "is_dir w p = (case files w p of None \<Rightarrow> False | Some f \<Rightarrow> st_is_dir f)"

text \<open>
  \<open>Path.write_text\<close> opens the file for writing, which raises when the parent directory
  is missing or is not a directory, or when the path is a directory. The source calls it
  outside any \<open>try\<close>.
\<close>

definition write_error :: "world \<Rightarrow> string \<Rightarrow> error option" where
  "write_error w p =
     (case files w (path_parent p) of
        None \<Rightarrow> Some (FileNotFoundError p)
      | Some d \<Rightarrow>
          if \<not> st_is_dir d then Some (NotADirectoryError p)
          else if is_dir w p then Some (IsADirectoryError p)
          else None)"

definition write_text :: "string \<Rightarrow> string \<Rightarrow> world \<Rightarrow> error + world" where
  "write_text p t w =
     (case write_error w p of
        Some e \<Rightarrow> Inl e
      | None \<Rightarrow>
          Inr (w\<lparr>files := (files w)(p \<mapsto> \<lparr>st_mtime = now w, st_data = t, st_is_dir = False\<rparr>)\<rparr>))"

text \<open>\<open>Path.unlink(missing_ok=True)\<close>: a missing file is no error, a directory is.\<close>

definition unlink :: "string \<Rightarrow> world \<Rightarrow> error + world" where
  "unlink p w =
     (if is_dir w p then Inl (IsADirectoryError p)
      else Inr (w\<lparr>files := (files w)(p := None)\<rparr>))"


text \<open>
  \<open>subprocess.run\<close> either returns a completed process (return code and captured standard
  error), or raises \<open>TimeoutExpired\<close>, or raises another exception (with its text). What
  the external program does to the files is not fixed by the engine, so the tool runner is
  a parameter of every operation that starts a process.
\<close>

datatype outcome = Completed int string | TimeoutExpired | Raised string

type_synonym tool = "string list \<Rightarrow> world \<Rightarrow> outcome \<times> world"

text \<open>
  What an operation prints, and which processes it starts (with the file system each
  process was started on), in order. The printed texts are in Chinese in the source; a
  notice keeps the values the text is formatted from.
\<close>

datatype notice =
    Unknown_chip string
  | Precompile_start nat nat int
  | Unit_failed string string
  | Precompile_raised
  | Ar_failed string
  | Ar_raised
  | Archive_ready string nat

datatype event = Printed notice | Invoked "string list" world

text \<open>\<open>print\<close> of a notice: the event, or the exception of a standard output that cannot
  encode it.\<close>

definition print_notice :: "notice \<Rightarrow> world \<Rightarrow> error + event" where
  "print_notice n w = (if utf8_stdout w then Inr (Printed n) else Inl UnicodeEncodeError)"

definition invocations :: "event list \<Rightarrow> string list list" where
  "invocations evs = concat (map (\<lambda>e. case e of Invoked cmd w \<Rightarrow> [cmd] | Printed n \<Rightarrow> []) evs)"

text \<open>The invocations of one program: \<open>cmd[0]\<close> names it.\<close>

definition invocations_of :: "string \<Rightarrow> event list \<Rightarrow> string list list" where
  "invocations_of prog evs = filter (\<lambda>cmd. cmd \<noteq> [] \<and> hd cmd = prog) (invocations evs)"



section \<open>The build session\<close>

record session =
  has_gcc :: bool
  has_specs :: bool
  has_hal :: bool
  has_hal_lib :: bool
  hal_inc_dirs :: "string list"
  hal_src_files :: "string list"
  chip_info :: "chip option"
  current_family :: "string option"

text \<open>The fields as \<open>Compiler.__init__\<close> sets them.\<close>

definition init_session :: session where
  "init_session =
     \<lparr>has_gcc = False, has_specs = False, has_hal = False, has_hal_lib = False,
      hal_inc_dirs = [], hal_src_files = [], chip_info = None, current_family = None\<rparr>"

text \<open>
  \<open>Compiler.__init__\<close>: after the fields, \<open>BUILD_DIR.mkdir(parents=True, exist_ok=True)\<close>
  creates the build directory, and the workspace directory above it, when missing.
\<close>

definition new_compiler :: "world \<Rightarrow> (error + session) \<times> world" where
  "new_compiler w =
     (let dir = \<lparr>st_mtime = now w, st_data = [], st_is_dir = True\<rparr> in
      case files w BUILD_DIR of
        Some f \<Rightarrow>
          if st_is_dir f then (Inr init_session, w) else (Inl (FileExistsError BUILD_DIR), w)
      | None \<Rightarrow>
         (case files w WORKSPACE of
            None \<Rightarrow>
              (Inr init_session,
               w\<lparr>files := (files w)(WORKSPACE \<mapsto> dir, BUILD_DIR \<mapsto> dir)\<rparr>)
          | Some d \<Rightarrow>
              if st_is_dir d
              then (Inr init_session, w\<lparr>files := (files w)(BUILD_DIR \<mapsto> dir)\<rparr>)
              else (Inl (NotADirectoryError BUILD_DIR), w)))"

text \<open>\<open>d[key]\<close> on a dict: raises \<open>KeyError\<close> for a missing key.\<close>

definition dict_index :: "(string \<times> 'v) list \<Rightarrow> string \<Rightarrow> error + 'v" where
  "dict_index d key = (case map_of d key of None \<Rightarrow> Inl (KeyError key) | Some v \<Rightarrow> Inr v)"


section \<open>The HAL source-set resolver\<close>

text \<open>\<open>Compiler._find_hal\<close>\<close>

definition find_hal :: "string \<Rightarrow> session \<Rightarrow> world \<Rightarrow> session" where
  "find_hal fam s w =
     (let hal = HAL_DIR;
          hal_header = ''stm32'' @ fam @ ''xx_hal.h'';
          s = s\<lparr>has_hal_lib := False\<rparr>
      in if \<not> exists_path w (path_join (path_join hal ''Inc'') hal_header)
         then s\<lparr>has_hal := False, hal_inc_dirs := [], hal_src_files := []\<rparr>
         else
          (let cmsis_paths =
                 [path_join (path_join hal ''CMSIS'') ''Include'',
                  path_join (path_join (path_join hal ''CMSIS'') ''Core'') ''Include''];
               hal_src = path_join hal ''Src'';
               needed = dict_get FAMILY_HAL_FILES fam []
           in s\<lparr>has_hal := True,
                hal_inc_dirs := path_join hal ''Inc'' # filter (exists_path w) cmsis_paths,
                hal_src_files :=
                  map (path_join hal_src)
                    (filter (\<lambda>f. exists_path w (path_join hal_src f)) needed)\<rparr>))"


section \<open>Selecting the chip\<close>

text \<open>
  \<open>Compiler.set_chip\<close> from the assignment \<open>self._chip_info = info\<close> on: the linker
  script and the startup file are written, and the HAL is resolved when the family is
  not the current one. Neither write is inside a \<open>try\<close>.
\<close>

definition set_chip_info ::
  "chip \<Rightarrow> session \<Rightarrow> world \<Rightarrow> event list
   \<Rightarrow> (error + chip) \<times> session \<times> world \<times> event list" where
  "set_chip_info info s w evs =
     (let s = s\<lparr>chip_info := Some info\<rparr>;
          ld = gen_linker_script (flash_k info) (ram_k info)
      in case write_text (path_join BUILD_DIR ''link.ld'') ld w of
           Inl e \<Rightarrow> (Inl e, s, w, evs)
         | Inr w \<Rightarrow>
            (let irq_names = dict_get FAMILY_IRQ_NAMES (family info) F1_IRQ_NAMES;
                 startup = gen_startup (cpu info) irq_names
             in case write_text (path_join BUILD_DIR ''startup.s'') startup w of
                  Inl e \<Rightarrow> (Inl e, s, w, evs)
                | Inr w \<Rightarrow>
                   (let s = (if Some (family info) \<noteq> current_family s
                             then find_hal (family info)
                                    (s\<lparr>current_family := Some (family info)\<rparr>) w
                             else s)
                    in (Inr info, s, w, evs))))"

text \<open>
  \<open>Compiler.set_chip\<close>. The result is the chip record, or the exception that left the
  method; the session, the files and the printed notices are returned in both cases.
  For an unknown name the warning is printed first, outside any \<open>try\<close>.
\<close>

definition set_chip ::
  "string \<Rightarrow> session \<Rightarrow> world \<Rightarrow> (error + chip) \<times> session \<times> world \<times> event list" where
  "set_chip chip_name s w =
     (case lookup_chip chip_name of
        Some info \<Rightarrow> set_chip_info info s w []
      | None \<Rightarrow>
         (case print_notice (Unknown_chip chip_name) w of
            Inl e \<Rightarrow> (Inl e, s, w, [])
          | Inr ev \<Rightarrow>
             (case dict_index CHIP_DB ''STM32F103C8'' of
                Inl e \<Rightarrow> (Inl e, s, w, [ev])
              | Inr info \<Rightarrow> set_chip_info info s w [ev])))"


section \<open>The incremental build cache\<close>

text \<open>\<open>self._current_family or "f1"\<close>\<close>

definition family_or_f1 :: "session \<Rightarrow> string" where
  "family_or_f1 s =
     (case current_family s of None \<Rightarrow> ''f1'' | Some f \<Rightarrow> if f = [] then ''f1'' else f)"

definition cpu_flags :: "chip \<Rightarrow> string list" where
  "cpu_flags ci =
     [''-mcpu='' @ cpu ci, ''-mthumb'']
     @ (if fpu ci then [''-mfloat-abi=hard'', ''-mfpu=fpv4-sp-d16''] else [])"

definition inc_flags :: "session \<Rightarrow> string list" where
  "inc_flags s = map (\<lambda>d. ''-I'' @ d) (hal_inc_dirs s)"

definition lib_path :: "string \<Rightarrow> string" where
  "lib_path fam = path_join BUILD_DIR (''libstm32hal_'' @ fam @ ''.a'')"

definition obj_dir :: "string \<Rightarrow> string" where
  "obj_dir fam = path_join BUILD_DIR (''hal_obj_'' @ fam)"

definition obj_path :: "string \<Rightarrow> string \<Rightarrow> string" where
  "obj_path fam src = path_join (obj_dir fam) (path_stem src @ ''.o'')"

text \<open>
  The staleness test of one unit,
  \<open>not obj.exists() or obj.stat().st_mtime < src_path.stat().st_mtime\<close>:
  \<open>stat\<close> on a missing source raises, and is reached only when the object exists.
\<close>

definition is_stale :: "world \<Rightarrow> string \<Rightarrow> string \<Rightarrow> error + bool" where
  "is_stale w src obj =
     (case files w obj of
        None \<Rightarrow> Inr True
      | Some ob \<Rightarrow>
         (case files w src of
            None \<Rightarrow> Inl (FileNotFoundError src)
          | Some sr \<Rightarrow> Inr (st_mtime ob < st_mtime sr)))"


definition hal_compile_cmd :: "chip \<Rightarrow> string list \<Rightarrow> string \<Rightarrow> string \<Rightarrow> string list" where
  "hal_compile_cmd ci incs src obj =
     [ARM_GCC] @ cpu_flags ci
     @ [''-D'' @ define_macro ci, ''-DUSE_HAL_DRIVER'']
     @ incs
     @ [''-Os'', ''-ffunction-sections'', ''-fdata-sections'', ''-c'', src, ''-o'', obj]"






text \<open>
  What the cache relies on from the external programs. A compiler run on one unit that
  exits with 0 had a source to read, has written the object file, not older than the
  source, and has changed no other file. An archiver run that exits with 0 has written
  the archive and has changed no other file. Neither changes the encoding of standard
  output.
\<close>

definition compiler_contract :: "tool \<Rightarrow> bool" where
  "compiler_contract run =
     (\<forall>ci incs src obj w err w'.
        run (hal_compile_cmd ci incs src obj) w = (Completed 0 err, w') \<longrightarrow>
          (\<exists>sr ob. files w src = Some sr \<and> files w' obj = Some ob
                   \<and> st_mtime sr \<le> st_mtime ob)
          \<and> (\<forall>p. p \<noteq> obj \<longrightarrow> files w' p = files w p)
          \<and> utf8_stdout w' = utf8_stdout w)"

definition archiver_contract :: "tool \<Rightarrow> bool" where
  "archiver_contract run =
     (\<forall>lib objs w err w'.
        run ([ARM_AR, ''rcs'', lib] @ objs) w = (Completed 0 err, w') \<longrightarrow>
          exists_path w' lib
          \<and> (\<forall>p. p \<noteq> lib \<longrightarrow> files w' p = files w p)
          \<and> utf8_stdout w' = utf8_stdout w)"

text \<open>\<open>touch\<close>: the modification time of an existing file is set.\<close>

definition touch :: "string \<Rightarrow> nat \<Rightarrow> world \<Rightarrow> world" where
  "touch p t w =
     (case files w p of
        None \<Rightarrow> w
      | Some st \<Rightarrow> w\<lparr>files := (files w)(p \<mapsto> st\<lparr>st_mtime := t\<rparr>)\<rparr>)"


text \<open>
  Freshness in the words of the specification: the object exists and its modification
  time is not older than the modification time of its source. The modification time is
  the number \<open>stat().st_mtime\<close> reports.
\<close>

definition spec_fresh :: "world \<Rightarrow> string \<Rightarrow> string \<Rightarrow> bool" where
  "spec_fresh w src obj =
     (case files w obj of
        None \<Rightarrow> False
      | Some ob \<Rightarrow>
         (case files w src of None \<Rightarrow> False | Some sr \<Rightarrow> st_mtime sr \<le> st_mtime ob))"


section \<open>The compile orchestrator\<close>

text \<open>
  The result dictionary of \<open>compile\<close>. The message texts are Chinese in the source; a
  message keeps which text it is and the values formatted into it.
\<close>

datatype message =
    Gcc_not_installed
  | Compile_succeeded nat
  | Syntax_check_passed
  | Diagnostics string
  | Compile_timed_out
  | Exception_text string

record result =
  ok :: bool
  msg :: message
  bin_path :: "string option"
  bin_size :: nat

definition failed :: "message \<Rightarrow> result" where
  "failed m = \<lparr>ok = False, msg = m, bin_path = None, bin_size = 0\<rparr>"

definition error_markers :: "string list" where
  "error_markers =
     [''error:'', ''undefined reference'', ''multiple definition'',
      ''cannot find'', ''No such file'', ''fatal:'']"

definition has_marker :: "string \<Rightarrow> bool" where
  "has_marker l = list_ex (\<lambda>k. contains l k) error_markers"

text \<open>
  The message of a failed toolchain run, from its standard error:
  the lines with an error marker, without the \<open>collect2:\<close> lines unless no other line is
  left, cut to 15 lines; without any marked line, the first 1000 characters.
\<close>

definition failure_msg :: "string \<Rightarrow> string" where
  "failure_msg err =
     (let lines = filter has_marker (split newline err);
          kept = filter (\<lambda>l. \<not> contains l ''collect2:'') lines;
          lines = (if kept \<noteq> [] then kept else lines)
      in if lines \<noteq> [] then join [newline] (take 15 lines) else take 1000 err)"

definition main_c :: string where
  "main_c = path_join BUILD_DIR ''main.c''"

definition elf :: string where
  "elf = path_join BUILD_DIR ''firmware.elf''"

definition binf :: string where
  "binf = path_join BUILD_DIR ''firmware.bin''"

text \<open>The command line of the build: linking against the HAL, or a syntax check.\<close>

definition compile_cmd :: "session \<Rightarrow> chip \<Rightarrow> string list" where
  "compile_cmd s ci =
     (if has_hal s then
        (let fam = family_or_f1 s;
             extra_srcs = (if has_hal_lib s then [] else hal_src_files s);
             extra_libs = (if has_hal_lib s
                           then [''-L'' @ BUILD_DIR, ''-lstm32hal_'' @ fam] else [])
         in [ARM_GCC] @ cpu_flags ci
            @ [''-D'' @ define_macro ci, ''-DUSE_HAL_DRIVER'']
            @ inc_flags s
            @ [''-Os'', ''-Wall'', ''-Wno-unused-variable'', ''-Wno-unused-function'',
               ''-ffunction-sections'', ''-fdata-sections'',
               ''-T'' @ path_join BUILD_DIR ''link.ld'',
               ''-Wl,--gc-sections'',
               main_c,
               path_join BUILD_DIR ''startup.s'']
            @ extra_srcs
            @ [''-o'', elf, ''-nostartfiles'']
            @ extra_libs
            @ [''-lc'', ''-lm'', ''-lnosys'']
            @ (if has_specs s then [''--specs=nosys.specs'', ''--specs=nano.specs''] else []))
      else [ARM_GCC] @ cpu_flags ci
           @ [''-D'' @ define_macro ci, ''-fsyntax-only'', ''-Wall'', main_c])"

text \<open>
  The start of \<open>compile\<close>, outside its \<open>try\<close>: the program text is written to \<open>main.c\<close>,
  then the executable image and the flat binary are unlinked. The result is the
  exception that ended it, if any, and the files as they are then.
\<close>

definition prepare_build :: "string \<Rightarrow> world \<Rightarrow> error option \<times> world" where
  "prepare_build code w =
     (case write_text main_c code w of
        Inl e \<Rightarrow> (Some e, w)
      | Inr w1 \<Rightarrow>
         (case unlink elf w1 of
            Inl e \<Rightarrow> (Some e, w1)
          | Inr w2 \<Rightarrow>
             (case unlink binf w2 of
                Inl e \<Rightarrow> (Some e, w2)
              | Inr w3 \<Rightarrow> (None, w3))))"

text \<open>\<open>Compiler.compile\<close> once the chip record \<open>ci\<close> is known.\<close>

definition compile_chip ::
  "tool \<Rightarrow> string \<Rightarrow> chip \<Rightarrow> session \<Rightarrow> world \<Rightarrow> (error + result) \<times> world \<times> event list" where
  "compile_chip run code ci s w =
     (case prepare_build code w of
        (Some e, w) \<Rightarrow> (Inl e, w, [])
      | (None, w) \<Rightarrow>
         if \<not> has_gcc s then (Inr (failed Gcc_not_installed), w, [])
         else
          (let cmd = compile_cmd s ci;
               (r, w1) = run cmd w;
               ev1 = [Invoked cmd w]
           in case r of
                Completed rc err \<Rightarrow>
                  if rc = 0 then
                    (if has_hal s \<and> exists_path w1 elf then
                       (let oc = [ARM_OBJCOPY, ''-O'', ''binary'', elf, binf];
                            (r2, w2) = run oc w1;
                            ev2 = ev1 @ [Invoked oc w1]
                        in case r2 of
                             Completed rc2 err2 \<Rightarrow>
                               (let sz = (case files w2 binf of
                                            Some st \<Rightarrow> length (st_data st) | None \<Rightarrow> 0)
                                in (Inr \<lparr>ok = True, msg = Compile_succeeded sz,
                                         bin_path = Some binf, bin_size = sz\<rparr>, w2, ev2))
                           | TimeoutExpired \<Rightarrow> (Inr (failed Compile_timed_out), w2, ev2)
                           | Raised e \<Rightarrow> (Inr (failed (Exception_text e)), w2, ev2))
                     else (Inr \<lparr>ok = True, msg = Syntax_check_passed,
                                bin_path = None, bin_size = 0\<rparr>, w1, ev1))
                  else (Inr (failed (Diagnostics (failure_msg err))), w1, ev1)
              | TimeoutExpired \<Rightarrow> (Inr (failed Compile_timed_out), w1, ev1)
              | Raised e \<Rightarrow> (Inr (failed (Exception_text e)), w1, ev1)))"

text \<open>
  \<open>Compiler.compile\<close>: the chip is set to \<open>DEFAULT_CHIP\<close> first when none has been
  set; an exception of \<open>set_chip\<close> is not caught.
\<close>

definition compile ::
  "tool \<Rightarrow> string \<Rightarrow> session \<Rightarrow> world \<Rightarrow> (error + result) \<times> session \<times> world \<times> event list" where
  "compile run code s w =
     (case chip_info s of
        Some ci \<Rightarrow>
          (let (res, w', evs) = compile_chip run code ci s w in (res, s, w', evs))
      | None \<Rightarrow>
         (case set_chip DEFAULT_CHIP s w of
            (Inl e, s1, w1, ev0) \<Rightarrow> (Inl e, s1, w1, ev0)
          | (Inr ci, s1, w1, ev0) \<Rightarrow>
             (let (res, w', evs) = compile_chip run code ci s1 w1
              in (res, s1, w', ev0 @ evs))))"



section \<open>Sample sessions, file systems and tools\<close>

text \<open>
  Concrete inputs on which the verified properties are evaluated: a file system with
  nothing on it, the file system a new \<open>Compiler\<close> object leaves behind on it (the
  workspace and the build directory), a session that has found the compiler and selected
  the \<open>STM32F103C8\<close> without a HAL, and a toolchain whose every run fails with a given
  diagnostic text.
\<close>

definition empty_world :: world where
  "empty_world = \<lparr>files = Map.empty, now = 0, utf8_stdout = True\<rparr>"

definition fresh_world :: world where
  "fresh_world = snd (new_compiler empty_world)"


definition bare_session :: session where
  "bare_session =
     init_session\<lparr>has_gcc := True,
                  chip_info := Some (mk_chip ''cortex-m3'' 64 20 ''STM32F103xB'' ''f1'' False),
                  current_family := Some ''f1''\<rparr>"

definition failing_tool :: "string \<Rightarrow> tool" where
  "failing_tool err cmd w = (Completed 1 err, w)"

definition write_file :: "string \<Rightarrow> nat \<Rightarrow> string \<Rightarrow> world \<Rightarrow> world" where
  "write_file p t d w =
     w\<lparr>files := (files w)(p \<mapsto> \<lparr>st_mtime = t, st_data = d, st_is_dir = False\<rparr>)\<rparr>"

definition make_dir :: "string \<Rightarrow> nat \<Rightarrow> world \<Rightarrow> world" where
  "make_dir p t w =
     w\<lparr>files := (files w)(p \<mapsto> \<lparr>st_mtime = t, st_data = [], st_is_dir = True\<rparr>)\<rparr>"


text \<open>
  A toolchain that works. Compiling one unit writes the object file, not older than the
  source (and fails when the source is missing); linking writes the file named after
  \<open>-o\<close>; the archiver writes the archive, its second argument; the object copier writes
  its last argument. Nothing else is changed.
\<close>

fun arg_after :: "string \<Rightarrow> string list \<Rightarrow> string option" where
  "arg_after k (x # y # args) = (if x = k then Some y else arg_after k (y # args))"
| "arg_after k args = None"

text \<open>A command line that ends with \<open>-c SRC -o OBJ\<close> compiles one unit.\<close>

definition compile_mode :: "string list \<Rightarrow> (string \<times> string) option" where
  "compile_mode cmd =
     (case rev cmd of
        obj # flag_o # src # flag_c # front \<Rightarrow>
          if flag_o = ''-o'' \<and> flag_c = ''-c'' then Some (src, obj) else None
      | _ \<Rightarrow> None)"

definition working_tool :: tool where
  "working_tool cmd w =
     (case cmd of
        [] \<Rightarrow> (Raised ''no program'', w)
      | prog # args \<Rightarrow>
         if prog = ARM_GCC then
           (case compile_mode cmd of
              Some (src, obj) \<Rightarrow>
                (case files w src of
                   None \<Rightarrow> (Completed 1 (src @ '': No such file or directory''), w)
                 | Some st \<Rightarrow>
                    (Completed 0 [], write_file obj (max (now w) (st_mtime st)) ''OBJ'' w))
            | None \<Rightarrow>
               (case arg_after ''-o'' cmd of
                  None \<Rightarrow> (Completed 0 [], w)
                | Some out \<Rightarrow> (Completed 0 [], write_file out (now w) ''ELF'' w)))
         else if prog = ARM_AR then
           (case args of
              opts # lib # objs \<Rightarrow> (Completed 0 [], write_file lib (now w) ''AR'' w)
            | _ \<Rightarrow> (Completed 1 ''usage'', w))
         else if prog = ARM_OBJCOPY then
           (if args = [] then (Completed 1 ''usage'', w)
            else (Completed 0 [], write_file (last args) (now w) ''BIN'' w))
         else (Raised ''No such file or directory'', w))"

text \<open>
  The same toolchain with a compiler that stamps the object file with the time of the run,
  whatever the time stamp of the source is.
\<close>

definition clock_tool :: tool where
  "clock_tool cmd w =
     (if take 1 cmd = [ARM_GCC] then
        (case compile_mode cmd of
           Some (src, obj) \<Rightarrow>
             (case files w src of
                None \<Rightarrow> (Completed 1 (src @ '': No such file or directory''), w)
              | Some st \<Rightarrow> (Completed 0 [], write_file obj (now w) ''OBJ'' w))
         | None \<Rightarrow> working_tool cmd w)
      else working_tool cmd w)"

text \<open>A HAL installation that has the header of the F1 family and none of its sources.\<close>

definition header_only_world :: world where
  "header_only_world =
     write_file (path_join (path_join HAL_DIR ''Inc'') ''stm32f1xx_hal.h'') 1 []
       (make_dir (path_join HAL_DIR ''Inc'') 1
          (make_dir HAL_DIR 1 (fresh_world\<lparr>now := 5\<rparr>)))"

text \<open>A partial HAL installation: the F1 header and two of the twenty F1 sources.\<close>

definition partial_world :: world where
  "partial_world =
     write_file (path_join (path_join HAL_DIR ''Src'') ''stm32f1xx_hal_gpio.c'') 1 []
       (write_file (path_join (path_join HAL_DIR ''Src'') ''stm32f1xx_hal.c'') 1 []
          (make_dir (path_join HAL_DIR ''Src'') 1 header_only_world))"



definition warm_world :: world where
  "warm_world =
     write_file (lib_path ''f1'') 5 ''AR''
       (write_file (obj_path ''f1'' ''workspace/hal/Src/stm32f1xx_hal_gpio.c'') 5 ''OBJ''
          (write_file (obj_path ''f1'' ''workspace/hal/Src/stm32f1xx_hal.c'') 5 ''OBJ''
             (make_dir (obj_dir ''f1'') 5 partial_world)))"



text \<open>
  The files after the first build, with one source dated after the present time (as after
  a clock change, or unpacked with the time stamps of another machine).
\<close>

definition future_world :: world where
  "future_world = touch ''workspace/hal/Src/stm32f1xx_hal.c'' 9 warm_world"


section \<open>Splitting and joining lines\<close>

lemma split_nonempty: "split c s \<noteq> []"
  by (induction s) (auto split: list.splits)

lemma split_no_sep: "c \<notin> set a \<Longrightarrow> split c a = [a]"
  by (induction a) auto

lemma split_append_sep: "c \<notin> set a \<Longrightarrow> split c (a @ c # b) = a # split c b"
  by (induction a) auto

lemma split_lines_free: "l \<in> set (split c s) \<Longrightarrow> c \<notin> set l"
  by (induction s arbitrary: l) (auto split: if_splits list.splits)

lemma split_join:
  assumes "ls \<noteq> []" and "\<forall>l\<in>set ls. c \<notin> set l"
  shows "split c (join [c] ls) = ls"
  using assms
proof (induction "[c]" ls rule: join.induct)
  case 1
  then show ?case by simp
next
  case (2 x)
  then show ?case by (simp add: split_no_sep)
next
  case (3 x y ys)
  then show ?case by (simp add: split_append_sep)
qed

lemma split_join_then_sep:
  assumes "ls \<noteq> []" and "\<forall>l\<in>set ls. c \<notin> set l"
  shows "split c (join [c] ls @ c # r) = ls @ split c r"
  using assms
proof (induction "[c]" ls rule: join.induct)
  case 1
  then show ?case by simp
next
  case (2 x)
  then show ?case by (simp add: split_append_sep)
next
  case (3 x y ys)
  then show ?case by (simp add: split_append_sep)
qed

lemma split_text_lines:
  assumes "\<forall>l\<in>set ls. newline \<notin> set l"
  shows "split newline (text_lines ls @ r) = ls @ split newline r"
  using assms by (induction ls) (auto simp: text_lines_def split_append_sep)

lemma digits_no_newline: "newline \<notin> set (digits n)"
proof (induction n rule: digits.induct)
  case (1 n)
  have d: "digit_char k \<noteq> newline" if "k < 10" for k
  proof -
    from that have "k \<in> {0, 1, 2, 3, 4, 5, 6, 7, 8, 9}" by auto
    then show ?thesis by (auto simp: digit_char_def newline_def)
  qed
  show ?case
  proof (cases "n < 10")
    case True
    then show ?thesis using d[of n] by (subst digits.simps) simp
  next
    case False
    then show ?thesis using 1 d[of "n mod 10"] by (subst digits.simps) simp
  qed
qed

lemma str_int_no_newline: "newline \<notin> set (str_int i)"
proof -
  have "CHR ''-'' \<noteq> newline" by (simp add: newline_def)
  then show ?thesis by (auto simp: str_int_def digits_no_newline)
qed

section \<open>Properties of the chip resolver\<close>

lemma keys_prefix_free_all:
  "\<forall>k\<in>set chip_keys. \<forall>k'\<in>set chip_keys. prefix k' k \<longrightarrow> k' = k"
  by code_simp

lemma keys_normal_all: "\<forall>k\<in>set chip_keys. normalize_name k = k"
  by code_simp

lemma keys_distinct: "distinct (map fst CHIP_DB)"
  by code_simp

lemma normalize_name_append:
  "normalize_name (a @ b) = normalize_name a @ normalize_name b"
  by (simp add: normalize_name_def remove_char_def upper_def)

lemma map_of_CHIP_DB_key: "map_of CHIP_DB k = Some c \<Longrightarrow> k \<in> set chip_keys"
  unfolding chip_keys_def by (auto dest!: map_of_SomeD intro: rev_image_eqI)

lemma key_of_extension:
  assumes "key \<in> set chip_keys" and "k' \<in> set chip_keys"
    and "prefix k' (key @ s)"
  shows "k' = key"
proof -
  have "prefix key (key @ s)" by simp
  with assms(3) have "prefix k' key \<or> prefix key k'"
    by (rule prefix_same_cases)
  then show ?thesis
    using keys_prefix_free_all assms(1,2) by blast
qed

lemma strip_suffix_prefix: "prefix (strip_suffix n name) name"
  by (simp add: strip_suffix_def take_is_prefix)

lemma map_of_at_prefix:
  assumes "key \<in> set chip_keys" and "prefix x (key @ s)"
  shows "map_of CHIP_DB x = None \<or> map_of CHIP_DB x = map_of CHIP_DB key"
proof (cases "map_of CHIP_DB x")
  case None
  then show ?thesis by simp
next
  case (Some c)
  then have "x \<in> set chip_keys" by (rule map_of_CHIP_DB_key)
  with assms have "x = key" by (metis key_of_extension)
  then show ?thesis by simp
qed

lemma find_prefix_key:
  assumes "key \<in> set chip_keys"
  shows "\<exists>c. find (\<lambda>(k, c). prefix k (key @ s)) CHIP_DB = Some (key, c)
             \<and> map_of CHIP_DB key = Some c"
proof -
  from assms obtain c0 where c0: "(key, c0) \<in> set CHIP_DB"
    unfolding chip_keys_def by auto
  then have "\<exists>x\<in>set CHIP_DB. (\<lambda>(k, c). prefix k (key @ s)) x"
    by (intro bexI[of _ "(key, c0)"]) auto
  then obtain r where r: "find (\<lambda>(k, c). prefix k (key @ s)) CHIP_DB = Some r"
    by (cases "find (\<lambda>(k, c). prefix k (key @ s)) CHIP_DB") (auto simp: find_None_iff)
  obtain k' c' where kc: "r = (k', c')" by (cases r)
  from r kc have mem: "(k', c') \<in> set CHIP_DB" and pre: "prefix k' (key @ s)"
    by (auto simp: find_Some_iff) (metis nth_mem)
  from mem have "k' \<in> set chip_keys" unfolding chip_keys_def by force
  with assms pre have "k' = key" by (metis key_of_extension)
  moreover from mem keys_distinct have "map_of CHIP_DB k' = Some c'" by simp
  ultimately show ?thesis using r kc by simp
qed

lemma lookup_chip_extension:
  assumes "key \<in> set chip_keys"
  shows "lookup_chip (key @ s) = map_of CHIP_DB key"
proof -
  define name where "name = key @ normalize_name s"
  have norm: "normalize_name (key @ s) = name"
    using assms keys_normal_all by (simp add: normalize_name_append name_def)
  from assms obtain c where c: "map_of CHIP_DB key = Some c"
    using find_prefix_key by blast
  have e0: "map_of CHIP_DB name = None \<or> map_of CHIP_DB name = Some c"
    using map_of_at_prefix[OF assms, of name "normalize_name s"] c by (simp add: name_def)
  have e2: "map_of CHIP_DB (strip_suffix 2 name) = None \<or> map_of CHIP_DB (strip_suffix 2 name) = Some c"
    using map_of_at_prefix[OF assms, of "strip_suffix 2 name" "normalize_name s"] c
      strip_suffix_prefix[of 2 name] by (simp add: name_def)
  have e1: "map_of CHIP_DB (strip_suffix 1 name) = None \<or> map_of CHIP_DB (strip_suffix 1 name) = Some c"
    using map_of_at_prefix[OF assms, of "strip_suffix 1 name" "normalize_name s"] c
      strip_suffix_prefix[of 1 name] by (simp add: name_def)
  have f: "find (\<lambda>(k, c). prefix k name) CHIP_DB = Some (key, c)"
    using find_prefix_key[OF assms, of "normalize_name s"] c by (auto simp: name_def)
  show ?thesis
    unfolding lookup_chip_def norm Let_def c
    using e0 e2 e1 f by (auto split: option.splits)
qed

lemma lookup_chip_key:
  assumes "key \<in> set chip_keys"
  shows "lookup_chip key = map_of CHIP_DB key"
  using lookup_chip_extension[OF assms, of "[]"] by simp

text \<open>
  Claim C4. For every key of the chip table and every suffix of one or two characters
  appended to it, the resolver returns the record it returns for the bare key, which is the
  table's entry for that key; and \<open>STM32F103C8T6\<close> resolves to the Cortex-M3 entry with
  64 KB flash, 20 KB RAM, family f1 and no FPU.
\<close>

theorem lookup_chip_benign_suffix:
  assumes "key \<in> set chip_keys" and "1 \<le> length sfx" and "length sfx \<le> 2"
  shows "lookup_chip (key @ sfx) = lookup_chip key
       \<and> lookup_chip key = map_of CHIP_DB key
       \<and> lookup_chip key \<noteq> None
       \<and> lookup_chip ''STM32F103C8T6'' =
           Some \<lparr>cpu = ''cortex-m3'', flash_k = 64, ram_k = 20,
                 define_macro = ''STM32F103xB'', family = ''f1'', fpu = False\<rparr>"
proof -
  have "lookup_chip ''STM32F103C8T6'' =
           Some \<lparr>cpu = ''cortex-m3'', flash_k = 64, ram_k = 20,
                 define_macro = ''STM32F103xB'', family = ''f1'', fpu = False\<rparr>"
    by code_simp
  moreover have "lookup_chip key \<noteq> None"
    using find_prefix_key[OF assms(1)] lookup_chip_key[OF assms(1)] by auto
  ultimately show ?thesis
    using lookup_chip_extension[OF assms(1)] lookup_chip_key[OF assms(1)] by simp
qed

theorem lookup_chip_benign_suffix_witness:
  "lookup_chip ''STM32F407VGT6'' = lookup_chip ''STM32F407VG''
   \<and> lookup_chip ''STM32F407VG'' =
       Some \<lparr>cpu = ''cortex-m4'', flash_k = 1024, ram_k = 128,
             define_macro = ''STM32F407xx'', family = ''f4'', fpu = True\<rparr>"
proof -
  have k: "''STM32F407VG'' \<in> set chip_keys" by code_simp
  have m: "map_of CHIP_DB ''STM32F407VG'' =
       Some \<lparr>cpu = ''cortex-m4'', flash_k = 1024, ram_k = 128,
             define_macro = ''STM32F407xx'', family = ''f4'', fpu = True\<rparr>" by code_simp
  show ?thesis
    using lookup_chip_benign_suffix[OF k, of "''T6''"] m by simp
qed

section \<open>Writing files\<close>

lemma rfind_none: "c \<notin> set xs \<Longrightarrow> rfind c xs = None"
  by (induction xs) auto

lemma rfind_append: "c \<notin> set ys \<Longrightarrow> rfind c (xs @ c # ys) = Some (length xs)"
  by (induction xs) (simp_all add: rfind_none)

lemma path_parent_join: "CHR ''/'' \<notin> set f \<Longrightarrow> path_parent (path_join d f) = d"
  by (simp add: path_parent_def path_join_def rfind_append)


lemma write_error_none:
  assumes "is_dir w d" and "CHR ''/'' \<notin> set f" and "\<not> is_dir w (path_join d f)"
  shows "write_error w (path_join d f) = None"
  using assms by (auto simp: write_error_def path_parent_join is_dir_def split: option.splits)

lemma write_text_Inr:
  "write_text p t w = Inr w' \<longleftrightarrow>
     write_error w p = None
     \<and> w' = w\<lparr>files := (files w)(p \<mapsto> \<lparr>st_mtime = now w, st_data = t, st_is_dir = False\<rparr>)\<rparr>"
  by (auto simp: write_text_def split: option.splits)

lemma write_text_Inl: "write_text p t w = Inl e \<longleftrightarrow> write_error w p = Some e"
  by (auto simp: write_text_def split: option.splits)




section \<open>What selecting a chip does\<close>






section \<open>Unknown chip names\<close>


lemma fresh_world_files:
  "files fresh_world = [WORKSPACE \<mapsto> \<lparr>st_mtime = 0, st_data = [], st_is_dir = True\<rparr>,
                        BUILD_DIR \<mapsto> \<lparr>st_mtime = 0, st_data = [], st_is_dir = True\<rparr>]"
  "now fresh_world = 0" "utf8_stdout fresh_world"
  by (simp_all add: fresh_world_def new_compiler_def empty_world_def Let_def)

lemma fresh_world_ready:
  "is_dir fresh_world BUILD_DIR"
  "\<not> is_dir fresh_world (path_join BUILD_DIR f)"
  by (simp_all add: is_dir_def fresh_world_files path_join_def BUILD_DIR_def WORKSPACE_def)



section \<open>The layout of the linker script\<close>

lemma split_text_lines_all:
  assumes "\<forall>l\<in>set ls. newline \<notin> set l"
  shows "split newline (text_lines ls) = ls @ [[]]"
  using split_text_lines[OF assms, of "[]"] by simp

lemma linker_script_lines:
  "split newline (gen_linker_script f r) =
     [''MEMORY {'',
      ''  FLASH (rx)  : ORIGIN = 0x08000000, LENGTH = '' @ str_int f @ ''K'',
      ''  RAM   (xrw) : ORIGIN = 0x20000000, LENGTH = '' @ str_int r @ ''K'',
      ''}'',
      ''_estack = ORIGIN(RAM) + LENGTH(RAM);'',
      ''_Min_Heap_Size = 0x200;'',
      ''_Min_Stack_Size = 0x400;'',
      ''SECTIONS {'',
      ''  .isr_vector : { KEEP('' @ ''*(.isr_vector)) } >FLASH'',
      ''  .text : { *(.text*) *(.rodata*) . = ALIGN(4); _etext = .; } >FLASH'',
      ''  .init : { KEEP('' @ ''*(.init)) } >FLASH'',
      ''  .fini : { KEEP('' @ ''*(.fini)) } >FLASH'',
      ''  .init_array : { KEEP('' @ ''*(.init_array*)) } >FLASH'',
      ''  .fini_array : { KEEP('' @ ''*(.fini_array*)) } >FLASH'',
      ''  .data : AT(_etext) { _sdata = .; *(.data*) . = ALIGN(4); _edata = .; } >RAM'',
      ''  .bss : { _sbss = .; *(.bss*) *(COMMON) . = ALIGN(4); _ebss = .; } >RAM'',
      ''  ._user_heap_stack : { . = ALIGN(8); . = . + _Min_Heap_Size; . = . + _Min_Stack_Size; . = ALIGN(8); } >RAM'',
      ''  /DISCARD/ : { *(.ARM.*) }'',
      ''}'',
      '''']"
  unfolding gen_linker_script_def
  by (subst split_text_lines_all) (simp_all add: str_int_no_newline, simp_all add: newline_def)

text \<open>
  Claim C6, as amended. The linker script states the two sizes as the decimal number of
  kilobytes followed by the unit \<open>K\<close> (\<open>LENGTH = 64K\<close>), not as a byte count; every line
  after the third is the same for all inputs, and the output sections come in the order
  vector table, text, init, fini, init array, fini array, data, bss, heap and stack,
  discard.
\<close>

theorem linker_script_layout:
  "split newline (gen_linker_script f r) =
     [''MEMORY {'',
      ''  FLASH (rx)  : ORIGIN = 0x08000000, LENGTH = '' @ str_int f @ ''K'',
      ''  RAM   (xrw) : ORIGIN = 0x20000000, LENGTH = '' @ str_int r @ ''K'']
     @ drop 3 (split newline (gen_linker_script f' r'))
   \<and> map section_name (take 10 (drop 8 (split newline (gen_linker_script f r)))) =
       [''.isr_vector'', ''.text'', ''.init'', ''.fini'', ''.init_array'', ''.fini_array'',
        ''.data'', ''.bss'', ''._user_heap_stack'', ''/DISCARD/'']"
  unfolding linker_script_lines by (simp add: section_name_def)

theorem linker_script_layout_witness:
  "split newline (gen_linker_script 64 20) =
     [''MEMORY {'',
      ''  FLASH (rx)  : ORIGIN = 0x08000000, LENGTH = 64K'',
      ''  RAM   (xrw) : ORIGIN = 0x20000000, LENGTH = 20K'']
     @ drop 3 (split newline (gen_linker_script 1024 128))"
proof -
  have "str_int 64 = ''64''" "str_int 20 = ''20''"
    by (simp_all add: str_int_def digits.simps digit_char_def)
  then show ?thesis
    using linker_script_layout[of 64 20 1024 128] by simp
qed

text \<open>
  The claim as stated fails: for 64 KB of flash and 20 KB of RAM the script contains
  neither \<open>65536\<close> nor \<open>20480\<close>.
\<close>

theorem linker_script_byte_counts_counterexample:
  "\<not> contains (gen_linker_script 64 20) (str_int (64 * 1024))
   \<and> \<not> contains (gen_linker_script 64 20) (str_int (20 * 1024))"
proof -
  have s: "str_int (64 * 1024) = ''65536''" "str_int (20 * 1024) = ''20480''"
      "str_int 64 = ''64''" "str_int 20 = ''20''"
    by (simp_all add: str_int_def digits.simps digit_char_def)
  show ?thesis
    unfolding s gen_linker_script_def
    by (simp add: text_lines_def newline_def)
qed

section \<open>The message of a failed build\<close>

lemma contains_set: "contains l k \<Longrightarrow> set k \<subseteq> set l"
proof (induction l)
  case Nil
  then show ?case by simp
next
  case (Cons x xs)
  show ?case
  proof (cases "prefix k (x # xs)")
    case True
    then show ?thesis by (rule set_mono_prefix)
  next
    case False
    with Cons show ?thesis by auto
  qed
qed

lemma suffix_last: "suffix xs ys \<Longrightarrow> xs \<noteq> [] \<Longrightarrow> last xs = last ys"
  by (auto simp: suffix_def)

lemma marker_free:
  assumes "set l \<subseteq> {CHR ''a'', CHR ''b''}"
  shows "\<not> has_marker l"
proof
  assume "has_marker l"
  then obtain k where k: "k \<in> set error_markers" and c: "contains l k"
    by (auto simp: has_marker_def list_ex_iff)
  from c assms have "set k \<subseteq> {CHR ''a'', CHR ''b''}"
    using contains_set by blast
  with k show False
    by (auto simp: error_markers_def)
qed

lemma failure_msg_marked:
  assumes "filter has_marker (split newline err) \<noteq> []"
  shows "split newline (failure_msg err) =
           take 15 (let marked = filter has_marker (split newline err);
                        kept = filter (\<lambda>l. \<not> contains l ''collect2:'') marked
                    in if kept \<noteq> [] then kept else marked)"
proof -
  define marked where "marked = filter has_marker (split newline err)"
  define kept where "kept = filter (\<lambda>l. \<not> contains l ''collect2:'') marked"
  define chosen where "chosen = (if kept \<noteq> [] then kept else marked)"
  have ne: "chosen \<noteq> []"
    using assms by (auto simp: chosen_def marked_def)
  have sub: "set chosen \<subseteq> set (split newline err)"
    by (auto simp: chosen_def kept_def marked_def)
  have free: "\<forall>l\<in>set (take 15 chosen). newline \<notin> set l"
    using sub split_lines_free by (metis in_set_takeD subsetD)
  have ne15: "take 15 chosen \<noteq> []"
    using ne by (cases chosen) auto
  have "failure_msg err = join [newline] (take 15 chosen)"
    using ne unfolding failure_msg_def Let_def chosen_def kept_def marked_def
    by (simp split: if_splits)
  then show ?thesis
    using split_join[OF ne15 free]
    by (simp add: Let_def chosen_def kept_def marked_def)
qed

lemma failure_msg_unmarked:
  assumes "filter has_marker (split newline err) = []"
  shows "failure_msg err = take 1000 err"
  using assms by (simp add: failure_msg_def Let_def)

lemma build_paths:
  "main_c = path_join BUILD_DIR ''main.c''"
  "elf \<noteq> main_c" "binf \<noteq> main_c" "elf \<noteq> binf"
  "main_c \<noteq> BUILD_DIR" "elf \<noteq> BUILD_DIR" "binf \<noteq> BUILD_DIR"
  by (simp_all add: main_c_def elf_def binf_def path_join_def)

lemma prepare_build_ready:
  assumes "is_dir w BUILD_DIR" and "\<not> is_dir w main_c" and "\<not> is_dir w elf"
    and "\<not> is_dir w binf"
  shows "prepare_build code w =
           (None, w\<lparr>files := (files w)
                     (main_c \<mapsto> \<lparr>st_mtime = now w, st_data = code, st_is_dir = False\<rparr>,
                      elf := None, binf := None)\<rparr>)"
proof -
  have e: "write_error w main_c = None"
    using assms(1,2) unfolding build_paths(1) by (simp add: write_error_none)
  show ?thesis
    using assms(3,4) build_paths(2,3,4)
    by (simp add: prepare_build_def write_text_def e unlink_def is_dir_def)
qed


lemma compile_chip_failure:
  assumes "has_gcc s" and "prepare_build code w = (None, w0)"
    and "run (compile_cmd s ci) w0 = (Completed rc err, w1)"
    and "rc \<noteq> 0"
  shows "fst (compile_chip run code ci s w) = Inr (failed (Diagnostics (failure_msg err)))"
  using assms by (simp add: compile_chip_def Let_def)

text \<open>
  Claim C9, as amended. When the toolchain run of \<open>compile\<close> fails, the message is made
  of the standard-error lines that contain an error marker, without the \<open>collect2:\<close>
  lines unless they are the only marked lines, and cut to the first 15 of them; when no
  line contains a marker, the message is the first 1000 characters of standard error.
  The run is the one \<open>compile\<close> starts on the files it has prepared.
\<close>

theorem compile_failure_message:
  assumes "chip_info s = Some ci" and "has_gcc s"
    and "prepare_build code w = (None, w0)"
    and "run (compile_cmd s ci) w0 = (Completed rc err, w1)"
    and "rc \<noteq> 0"
  shows "\<exists>m. fst (compile run code s w) = Inr (failed (Diagnostics m))
           \<and> (let marked = filter has_marker (split newline err);
                   kept = filter (\<lambda>l. \<not> contains l ''collect2:'') marked
               in if marked = [] then m = take 1000 err
                  else split newline m = take 15 (if kept \<noteq> [] then kept else marked))"
proof -
  have c: "fst (compile run code s w) = Inr (failed (Diagnostics (failure_msg err)))"
    using compile_chip_failure[of s code w w0 run ci rc err w1] assms
    by (auto simp: compile_def split: prod.splits)
  show ?thesis
  proof (cases "filter has_marker (split newline err) = []")
    case True
    then show ?thesis using c failure_msg_unmarked[OF True] by (simp add: Let_def)
  next
    case False
    then show ?thesis
      using c failure_msg_marked[OF False]
      by (intro exI[of _ "failure_msg err"]) (simp add: Let_def del: filter_filter)
  qed
qed

lemma bare_session_fields:
  "chip_info bare_session = Some (mk_chip ''cortex-m3'' 64 20 ''STM32F103xB'' ''f1'' False)"
  "has_gcc bare_session" "\<not> has_hal bare_session" "\<not> has_hal_lib bare_session"
  "current_family bare_session = Some ''f1''"
  by (simp_all add: bare_session_def init_session_def)

lemma fresh_world_prepared:
  "\<exists>w0. prepare_build code fresh_world = (None, w0)"
  using prepare_build_ready[of fresh_world code] fresh_world_ready
  by (simp add: main_c_def elf_def binf_def)

theorem compile_failure_message_witness:
  "\<exists>m. fst (compile (failing_tool (''main.c:1: error: x'' @ newline # ''ld: undefined reference to y''))
            ''int main;'' bare_session fresh_world) = Inr (failed (Diagnostics m))
       \<and> split newline m = [''main.c:1: error: x'', ''ld: undefined reference to y'']"
proof -
  let ?e = "''main.c:1: error: x'' @ newline # ''ld: undefined reference to y''"
  have sp: "split newline ?e = [''main.c:1: error: x'', ''ld: undefined reference to y'']"
    by (simp add: newline_def)
  have m: "has_marker ''main.c:1: error: x''" "has_marker ''ld: undefined reference to y''"
    by (simp_all add: has_marker_def error_markers_def)
  have c: "\<not> contains ''main.c:1: error: x'' ''collect2:''"
          "\<not> contains ''ld: undefined reference to y'' ''collect2:''"
    by simp_all
  obtain w0 where p: "prepare_build ''int main;'' fresh_world = (None, w0)"
    using fresh_world_prepared by blast
  have r: "failing_tool ?e (compile_cmd bare_session (mk_chip ''cortex-m3'' 64 20 ''STM32F103xB'' ''f1'' False))
             w0 = (Completed 1 ?e, w0)"
    by (simp add: failing_tool_def)
  have one: "(1::int) \<noteq> 0" by simp
  from compile_failure_message[where run = "failing_tool ?e",
         OF bare_session_fields(1) bare_session_fields(2) p r one]
  show ?thesis
    unfolding sp using m c by (simp add: Let_def)
qed

text \<open>
  The claim as stated fails twice: a marked \<open>collect2:\<close> line is left out of the message
  when another marked line exists, and without marked lines the message is the head of
  the stream, which for a stream of 1001 characters is not a tail of it.
\<close>

theorem compile_failure_message_counterexample:
  "fst (compile (failing_tool (''main.c:1: error: x'' @ newline # ''collect2: error: ld returned 1 exit status''))
          ''int main;'' bare_session fresh_world)
     = Inr (failed (Diagnostics ''main.c:1: error: x''))
   \<and> filter has_marker (split newline
         (''main.c:1: error: x'' @ newline # ''collect2: error: ld returned 1 exit status''))
       = [''main.c:1: error: x'', ''collect2: error: ld returned 1 exit status'']
   \<and> filter has_marker (split newline (replicate 1000 CHR ''a'' @ ''b'')) = []
   \<and> fst (compile (failing_tool (replicate 1000 CHR ''a'' @ ''b''))
          ''int main;'' bare_session fresh_world)
       = Inr (failed (Diagnostics (replicate 1000 CHR ''a'')))
   \<and> \<not> suffix (replicate 1000 CHR ''a'') (replicate 1000 CHR ''a'' @ ''b'')"
proof -
  let ?e1 = "''main.c:1: error: x'' @ newline # ''collect2: error: ld returned 1 exit status''"
  let ?e2 = "replicate 1000 CHR ''a'' @ ''b''"
  have sp1: "split newline ?e1 = [''main.c:1: error: x'', ''collect2: error: ld returned 1 exit status'']"
    by (simp add: newline_def)
  have m1: "has_marker ''main.c:1: error: x''" "has_marker ''collect2: error: ld returned 1 exit status''"
    by (simp_all add: has_marker_def error_markers_def)
  have c1: "\<not> contains ''main.c:1: error: x'' ''collect2:''"
           "contains ''collect2: error: ld returned 1 exit status'' ''collect2:''"
    by simp_all
  have f1: "failure_msg ?e1 = ''main.c:1: error: x''"
    unfolding failure_msg_def sp1 using m1 c1 by (simp add: Let_def)
  obtain w0 where p: "prepare_build ''int main;'' fresh_world = (None, w0)"
    using fresh_world_prepared by blast
  have comp: "\<And>e. fst (compile (failing_tool e) ''int main;'' bare_session fresh_world)
               = Inr (failed (Diagnostics (failure_msg e)))"
    using p bare_session_fields(1,2)
    by (simp add: compile_def compile_chip_def failing_tool_def Let_def)
  have nl2: "newline \<notin> set ?e2" by (auto simp: newline_def)
  have sp2: "split newline ?e2 = [?e2]" using nl2 by (rule split_no_sep)
  have m2: "\<not> has_marker ?e2" by (rule marker_free) auto
  have f2: "failure_msg ?e2 = replicate 1000 CHR ''a''"
    unfolding failure_msg_def sp2 using m2 by (simp add: Let_def)
  have s2: "\<not> suffix (replicate 1000 CHR ''a'') ?e2"
  proof
    assume "suffix (replicate 1000 CHR ''a'') ?e2"
    then have "last (replicate 1000 CHR ''a'') = last ?e2"
      by (rule suffix_last) simp
    then show False by simp
  qed
  have A: "fst (compile (failing_tool ?e1) ''int main;'' bare_session fresh_world)
             = Inr (failed (Diagnostics ''main.c:1: error: x''))"
    unfolding comp f1 ..
  have B: "filter has_marker (split newline ?e1)
             = [''main.c:1: error: x'', ''collect2: error: ld returned 1 exit status'']"
    unfolding sp1 using m1 by simp
  have C: "filter has_marker (split newline ?e2) = []"
    unfolding sp2 using m2 by simp
  have D: "fst (compile (failing_tool ?e2) ''int main;'' bare_session fresh_world)
             = Inr (failed (Diagnostics (replicate 1000 CHR ''a'')))"
    unfolding comp f2 ..
  show ?thesis
    by (intro conjI A B C D s2)
qed

section \<open>A failed build reports no binary\<close>












section \<open>Partial HAL installations\<close>

lemma find_hal_sources:
  "hal_src_files (find_hal fam s w) =
     (if exists_path w (path_join (path_join HAL_DIR ''Inc'') (''stm32'' @ fam @ ''xx_hal.h''))
      then map (path_join (path_join HAL_DIR ''Src''))
             (filter (\<lambda>f. exists_path w (path_join (path_join HAL_DIR ''Src'') f))
                (dict_get FAMILY_HAL_FILES fam []))
      else [])"
  by (simp add: find_hal_def Let_def)

lemma find_hal_has_hal:
  "has_hal (find_hal fam s w) =
     exists_path w (path_join (path_join HAL_DIR ''Inc'') (''stm32'' @ fam @ ''xx_hal.h''))"
  by (simp add: find_hal_def Let_def)



lemma syntax_only_without_hal:
  "\<not> has_hal s \<Longrightarrow> ''-fsyntax-only'' \<in> set (compile_cmd s ci)"
  by (simp add: compile_cmd_def)

lemma links_with_found_hal:
  assumes "has_hal (find_hal fam s w)"
  shows "''-fsyntax-only'' \<notin> set (compile_cmd (find_hal fam s w) ci)"
proof -
  have src: "''-fsyntax-only'' \<notin> set (hal_src_files (find_hal fam s w))"
    by (auto simp: find_hal_sources path_join_def HAL_DIR_def WORKSPACE_def)
  have inc: "''-fsyntax-only'' \<notin> set (inc_flags (find_hal fam s w))"
    by (auto simp: inc_flags_def)
  have cpu: "''-fsyntax-only'' \<notin> set (cpu_flags ci)"
    by (auto simp: cpu_flags_def)
  show ?thesis
    using assms src inc cpu
    by (auto simp: compile_cmd_def Let_def ARM_GCC_def main_c_def elf_def path_join_def
          BUILD_DIR_def WORKSPACE_def)
qed

text \<open>
  Claim C8, as amended. The HAL resolver never fails over a missing source: when the
  family header exists, the source list is the family's allow-list, in order, restricted
  to the files present on disk, and otherwise it is empty. Whether the session has a HAL
  is decided by the header alone, so the build of a session just resolved is a syntax
  check exactly when the header is absent; with the header present it is a build that
  links, even when no source file is present.
\<close>

theorem find_hal_partial_installation:
  "hal_src_files (find_hal fam s w) =
     (if exists_path w (path_join (path_join HAL_DIR ''Inc'') (''stm32'' @ fam @ ''xx_hal.h''))
      then map (path_join (path_join HAL_DIR ''Src''))
             (filter (\<lambda>f. exists_path w (path_join (path_join HAL_DIR ''Src'') f))
                (dict_get FAMILY_HAL_FILES fam []))
      else [])
   \<and> has_hal (find_hal fam s w) =
       exists_path w (path_join (path_join HAL_DIR ''Inc'') (''stm32'' @ fam @ ''xx_hal.h''))
   \<and> (''-fsyntax-only'' \<in> set (compile_cmd (find_hal fam s w) ci)) =
       (\<not> exists_path w (path_join (path_join HAL_DIR ''Inc'') (''stm32'' @ fam @ ''xx_hal.h'')))"
  using find_hal_sources find_hal_has_hal links_with_found_hal syntax_only_without_hal
  by metis

lemma header_only_world_files:
  "files header_only_world =
     [WORKSPACE \<mapsto> \<lparr>st_mtime = 0, st_data = [], st_is_dir = True\<rparr>,
      BUILD_DIR \<mapsto> \<lparr>st_mtime = 0, st_data = [], st_is_dir = True\<rparr>,
      HAL_DIR \<mapsto> \<lparr>st_mtime = 1, st_data = [], st_is_dir = True\<rparr>,
      path_join HAL_DIR ''Inc'' \<mapsto> \<lparr>st_mtime = 1, st_data = [], st_is_dir = True\<rparr>,
      path_join (path_join HAL_DIR ''Inc'') ''stm32f1xx_hal.h''
        \<mapsto> \<lparr>st_mtime = 1, st_data = [], st_is_dir = False\<rparr>]"
  "now header_only_world = 5" "utf8_stdout header_only_world"
  by (simp_all add: header_only_world_def write_file_def make_dir_def fresh_world_files)

lemma partial_world_files:
  "files partial_world =
     (files header_only_world)
       (path_join HAL_DIR ''Src'' \<mapsto> \<lparr>st_mtime = 1, st_data = [], st_is_dir = True\<rparr>,
        path_join (path_join HAL_DIR ''Src'') ''stm32f1xx_hal.c''
          \<mapsto> \<lparr>st_mtime = 1, st_data = [], st_is_dir = False\<rparr>,
        path_join (path_join HAL_DIR ''Src'') ''stm32f1xx_hal_gpio.c''
          \<mapsto> \<lparr>st_mtime = 1, st_data = [], st_is_dir = False\<rparr>)"
  "now partial_world = 5" "utf8_stdout partial_world"
  by (simp_all add: partial_world_def write_file_def make_dir_def header_only_world_files)

lemma partial_world_header:
  "exists_path partial_world
     (path_join (path_join HAL_DIR ''Inc'') (''stm32'' @ ''f1'' @ ''xx_hal.h''))"
  by (simp add: partial_world_files header_only_world_files exists_path_def path_join_def
        HAL_DIR_def WORKSPACE_def)

lemma partial_world_sources:
  "map (path_join (path_join HAL_DIR ''Src''))
     (filter (\<lambda>f. exists_path partial_world (path_join (path_join HAL_DIR ''Src'') f))
        (dict_get FAMILY_HAL_FILES ''f1'' []))
   = [''workspace/hal/Src/stm32f1xx_hal.c'', ''workspace/hal/Src/stm32f1xx_hal_gpio.c'']"
  by (simp add: partial_world_files header_only_world_files exists_path_def path_join_def
        HAL_DIR_def WORKSPACE_def BUILD_DIR_def dict_get_def FAMILY_HAL_FILES_def)

theorem find_hal_partial_installation_witness:
  "hal_src_files (find_hal ''f1'' bare_session partial_world) =
     [''workspace/hal/Src/stm32f1xx_hal.c'', ''workspace/hal/Src/stm32f1xx_hal_gpio.c'']
   \<and> has_hal (find_hal ''f1'' bare_session partial_world)"
  using find_hal_partial_installation[of "''f1''" bare_session partial_world]
    partial_world_header partial_world_sources
  by simp

text \<open>
  The claim as stated fails: with the F1 header present and none of the sources, the
  session has a HAL, the build command is not a syntax check, and with a toolchain that
  succeeds \<open>compile\<close> returns the path of a binary.
\<close>

theorem find_hal_no_sources_counterexample:
  "exists_path header_only_world (path_join (path_join HAL_DIR ''Inc'') ''stm32f1xx_hal.h'')
   \<and> hal_src_files (find_hal ''f1'' bare_session header_only_world) = []
   \<and> has_hal (find_hal ''f1'' bare_session header_only_world)
   \<and> ''-fsyntax-only'' \<notin> set (compile_cmd (find_hal ''f1'' bare_session header_only_world)
                                  (mk_chip ''cortex-m3'' 64 20 ''STM32F103xB'' ''f1'' False))
   \<and> map_sum id bin_path
         (fst (compile working_tool ''int main(void) { return 0; }''
                 (find_hal ''f1'' bare_session header_only_world) header_only_world))
       = Inr (Some binf)"
proof -
  have h: "exists_path header_only_world (path_join (path_join HAL_DIR ''Inc'') ''stm32f1xx_hal.h'')"
    by (simp add: header_only_world_files exists_path_def)
  have s: "find_hal ''f1'' bare_session header_only_world =
             bare_session\<lparr>has_hal := True, hal_inc_dirs := [path_join HAL_DIR ''Inc'']\<rparr>"
    by (simp add: find_hal_def Let_def header_only_world_files exists_path_def path_join_def
          HAL_DIR_def WORKSPACE_def BUILD_DIR_def dict_get_def FAMILY_HAL_FILES_def
          bare_session_def init_session_def)
  have src: "hal_src_files (find_hal ''f1'' bare_session header_only_world) = []"
    unfolding s by (simp add: bare_session_def init_session_def)
  have hh: "has_hal (find_hal ''f1'' bare_session header_only_world)"
    unfolding s by simp
  have c: "''-fsyntax-only'' \<notin> set (compile_cmd (find_hal ''f1'' bare_session header_only_world)
                                  (mk_chip ''cortex-m3'' 64 20 ''STM32F103xB'' ''f1'' False))"
    using links_with_found_hal[OF hh] .
  have cmd: "compile_cmd (bare_session\<lparr>has_hal := True, hal_inc_dirs := [path_join HAL_DIR ''Inc'']\<rparr>)
               (mk_chip ''cortex-m3'' 64 20 ''STM32F103xB'' ''f1'' False) =
             [''arm-none-eabi-gcc'', ''-mcpu=cortex-m3'', ''-mthumb'', ''-DSTM32F103xB'',
              ''-DUSE_HAL_DRIVER'', ''-Iworkspace/hal/Inc'', ''-Os'', ''-Wall'',
              ''-Wno-unused-variable'', ''-Wno-unused-function'', ''-ffunction-sections'',
              ''-fdata-sections'', ''-Tworkspace/build/link.ld'', ''-Wl,--gc-sections'',
              ''workspace/build/main.c'', ''workspace/build/startup.s'', ''-o'',
              ''workspace/build/firmware.elf'', ''-nostartfiles'', ''-lc'', ''-lm'', ''-lnosys'']"
    by (simp add: compile_cmd_def Let_def bare_session_def init_session_def cpu_flags_def
          inc_flags_def mk_chip_def ARM_GCC_def main_c_def elf_def path_join_def BUILD_DIR_def
          HAL_DIR_def WORKSPACE_def family_or_f1_def)
  let ?s = "bare_session\<lparr>has_hal := True, hal_inc_dirs := [path_join HAL_DIR ''Inc'']\<rparr>"
  let ?ci = "mk_chip ''cortex-m3'' 64 20 ''STM32F103xB'' ''f1'' False"
  have rd: "is_dir header_only_world BUILD_DIR" "\<not> is_dir header_only_world main_c"
    "\<not> is_dir header_only_world elf" "\<not> is_dir header_only_world binf"
    by (simp_all add: is_dir_def header_only_world_files main_c_def elf_def binf_def
          path_join_def BUILD_DIR_def HAL_DIR_def WORKSPACE_def)
  obtain w0 where p: "prepare_build ''int main(void) { return 0; }'' header_only_world = (None, w0)"
    using prepare_build_ready[OF rd] by blast
  have flags: "chip_info ?s = Some ?ci" "has_gcc ?s" "has_hal ?s"
    by (simp_all add: bare_session_def init_session_def)
  have run1: "working_tool (compile_cmd ?s ?ci) w0 =
                (Completed 0 [], write_file elf (now w0) ''ELF'' w0)"
    unfolding cmd
    by (simp add: working_tool_def compile_mode_def ARM_GCC_def elf_def path_join_def
          BUILD_DIR_def WORKSPACE_def)
  have ex: "exists_path (write_file elf (now w0) ''ELF'' w0) elf"
    by (simp add: exists_path_def write_file_def)
  have run2: "working_tool [ARM_OBJCOPY, ''-O'', ''binary'', elf, binf]
                (write_file elf (now w0) ''ELF'' w0) =
              (Completed 0 [],
               write_file binf (now (write_file elf (now w0) ''ELF'' w0)) ''BIN''
                 (write_file elf (now w0) ''ELF'' w0))"
    by (simp add: working_tool_def ARM_GCC_def ARM_OBJCOPY_def ARM_AR_def)
  have cc: "map_sum id bin_path
              (fst (compile_chip working_tool ''int main(void) { return 0; }'' ?ci ?s
                      header_only_world)) = Inr (Some binf)"
    using flags run1 run2 ex p by (simp add: compile_chip_def Let_def)
  have r: "map_sum id bin_path
         (fst (compile working_tool ''int main(void) { return 0; }'' ?s header_only_world))
       = Inr (Some binf)"
    using cc flags(1) by (auto simp: compile_def split: prod.splits)
  show ?thesis
    using h src hh c r unfolding s by (intro conjI)
qed

section \<open>The incremental build cache\<close>

subsection \<open>Staleness\<close>

lemma is_stale_fresh_iff:
  "is_stale w src obj = Inr False \<longleftrightarrow>
     (\<exists>ob sr. files w obj = Some ob \<and> files w src = Some sr \<and> st_mtime sr \<le> st_mtime ob)"
  by (auto simp: is_stale_def split: option.splits)






section \<open>Switching the chip\<close>


















section \<open>The vector table and the weak aliases of the startup file\<close>

subsection \<open>The lines of the startup file\<close>

lemma join_Cons: "ys \<noteq> [] \<Longrightarrow> join sep (x # ys) = x @ sep @ join sep ys"
  by (cases ys) auto

lemma alias_lines_Nil_iff: "alias_lines ns = [] \<longleftrightarrow> ns = []"
  by (cases ns) (auto simp: alias_lines_def)

lemma join_weak_lines: "join [newline] (map weak_line ns) = join [newline] (alias_lines ns)"
proof (induction ns)
  case Nil
  then show ?case by (simp add: alias_lines_def)
next
  case (Cons n ns)
  show ?case
  proof (cases "ns = []")
    case True
    then show ?thesis by (simp add: alias_lines_def weak_line_def)
  next
    case False
    then have ne: "map weak_line ns \<noteq> []" "alias_lines ns \<noteq> []"
      by (simp_all add: alias_lines_Nil_iff)
    have "join [newline] (map weak_line (n # ns))
            = weak_line n @ [newline] @ join [newline] (map weak_line ns)"
      using ne(1) by (simp add: join_Cons)
    also have "\<dots> = (''.weak '' @ n) @ [newline]
                     @ (''.thumb_set '' @ n @ '', Default_Handler'') @ [newline]
                     @ join [newline] (alias_lines ns)"
      by (simp add: weak_line_def Cons.IH)
    also have "\<dots> = join [newline] (alias_lines (n # ns))"
    proof -
      have "alias_lines (n # ns) =
              (''.weak '' @ n) # (''.thumb_set '' @ n @ '', Default_Handler'') # alias_lines ns"
        by (simp add: alias_lines_def)
      then show ?thesis using ne(2) by (simp add: join_Cons)
    qed
    finally show ?thesis .
  qed
qed

lemma split_section:
  assumes "\<forall>l\<in>set ls. newline \<notin> set l"
  shows "split newline (join [newline] ls @ newline # r)
           = (if ls = [] then [[]] else ls) @ split newline r"
proof (cases "ls = []")
  case True
  then show ?thesis by simp
next
  case False
  then show ?thesis using split_join_then_sep[OF False assms] by simp
qed

lemma weak_lines_names: "weak_lines irq_names = map weak_line (names_of irq_names)"
  by (simp add: weak_lines_def names_of_def)

lemma vec_line_no_newline:
  assumes "well_named e"
  shows "newline \<notin> set (vec_line e)"
  using assms
  by (cases e) (auto simp: vec_line_def well_named_def is_symbol_def newline_def)

lemma alias_lines_no_newline:
  assumes "\<forall>n\<in>set ns. newline \<notin> set n"
  shows "\<forall>l\<in>set (alias_lines ns). newline \<notin> set l"
  using assms by (auto simp: alias_lines_def newline_def)

lemma names_of_symbols:
  assumes "list_all well_named irq_names"
  shows "\<forall>n\<in>set (names_of irq_names). is_symbol n"
  using assms
  by (auto simp: names_of_def list_all_iff well_named_def truthy_def split: option.splits)

lemma head_no_newline:
  assumes "newline \<notin> set core"
  shows "\<forall>l\<in>set (startup_vectors_head core). newline \<notin> set l"
  using assms by (simp add: startup_vectors_head_def) (simp add: newline_def)

lemma handlers_no_newline: "\<forall>l\<in>set startup_handlers. newline \<notin> set l"
  by (simp add: startup_handlers_def newline_def)

lemma startup_lines:
  assumes "newline \<notin> set core" and "list_all well_named irq_names"
  shows "split newline (gen_startup core irq_names) =
           startup_vectors_head core
           @ (if irq_names = [] then [[]] else vec_lines irq_names)
           @ startup_handlers
           @ (if names_of irq_names = [] then [[]] else alias_lines (names_of irq_names))
           @ [[]]"
proof -
  have v: "\<forall>l\<in>set (vec_lines irq_names). newline \<notin> set l"
    using assms(2) by (auto simp: vec_lines_def list_all_iff vec_line_no_newline)
  have a: "\<forall>l\<in>set (alias_lines (names_of irq_names)). newline \<notin> set l"
    using names_of_symbols[OF assms(2)] by (intro alias_lines_no_newline) (auto simp: is_symbol_def)
  have "gen_startup core irq_names =
          text_lines (startup_vectors_head core)
          @ (join [newline] (vec_lines irq_names) @ newline #
             (text_lines startup_handlers
              @ (join [newline] (alias_lines (names_of irq_names)) @ newline # [])))"
    by (simp add: gen_startup_def Let_def weak_lines_names join_weak_lines)
  then show ?thesis
    using split_text_lines[OF head_no_newline[OF assms(1)]]
      split_text_lines[OF handlers_no_newline] split_section[OF v] split_section[OF a]
    by (simp add: vec_lines_def alias_lines_Nil_iff)
qed

subsection \<open>The vector table\<close>

lemma word_operands_vec_line:
  assumes "well_named e"
  shows "word_operands (vec_line e) = [slot_word e]"
proof (cases e)
  case None
  then show ?thesis by (simp add: word_operands_def vec_line_def slot_word_def)
next
  case (Some n)
  with assms have n: "n \<noteq> []" "CHR '' '' \<notin> set n" "CHR '','' \<notin> set n"
    by (simp_all add: well_named_def is_symbol_def)
  have d: "drop 8 (''  .word '' @ n) = n" by simp
  have t: "takeWhile (\<lambda>c. c \<noteq> CHR '' '') n = n"
    using n(2) by (auto simp: takeWhile_eq_all_conv)
  have p: "prefix ''  .word '' (''  .word '' @ n)" by simp
  show ?thesis
    using Some n(1) split_no_sep[OF n(3)]
    unfolding word_operands_def vec_line_def slot_word_def
    by (simp only: option.case if_True if_False p d t not_False_eq_True simp_thms)
qed

lemma vec_line_nonempty: "vec_line e \<noteq> []"
  by (cases e) (simp_all add: vec_line_def)

lemma table_lines:
  "takeWhile (\<lambda>l. l \<noteq> [])
     (tl (dropWhile (\<lambda>l. l \<noteq> ''g_pfnVectors:'')
        (startup_vectors_head core
         @ (if irq_names = [] then [[]] else vec_lines irq_names)
         @ startup_handlers @ r)))
   = drop 10 (startup_vectors_head core) @ vec_lines irq_names"
proof -
  have h: "takeWhile (\<lambda>l. l \<noteq> []) (vec_lines irq_names @ startup_handlers @ r)
             = vec_lines irq_names"
  proof -
    obtain hs where hs: "startup_handlers = [] # hs"
      by (simp add: startup_handlers_def)
    have "\<And>x. x \<in> set (vec_lines irq_names) \<Longrightarrow> x \<noteq> []"
      by (auto simp: vec_lines_def vec_line_nonempty)
    then show ?thesis
      unfolding hs by (simp add: takeWhile_append2)
  qed
  show ?thesis
  proof (cases "irq_names = []")
    case True
    then show ?thesis by (simp add: startup_vectors_head_def vec_lines_def)
  next
    case False
    then show ?thesis using h by (simp add: startup_vectors_head_def)
  qed
qed

lemma core_words:
  "concat (map word_operands (drop 10 (startup_vectors_head core))) =
     [''_estack'', ''Reset_Handler'', ''NMI_Handler'', ''HardFault_Handler'',
      ''MemManage_Handler'', ''BusFault_Handler'', ''UsageFault_Handler'',
      ''0'', ''0'', ''0'', ''0'', ''SVC_Handler'', ''DebugMon_Handler'', ''0'',
      ''PendSV_Handler'', ''SysTick_Handler'']"
  by (simp add: startup_vectors_head_def word_operands_def)

lemma vector_table_eq:
  assumes "newline \<notin> set core" and "list_all well_named irq_names"
  shows "vector_table (gen_startup core irq_names) =
     [''_estack'', ''Reset_Handler'', ''NMI_Handler'', ''HardFault_Handler'',
      ''MemManage_Handler'', ''BusFault_Handler'', ''UsageFault_Handler'',
      ''0'', ''0'', ''0'', ''0'', ''SVC_Handler'', ''DebugMon_Handler'', ''0'',
      ''PendSV_Handler'', ''SysTick_Handler'']
     @ map slot_word irq_names"
proof -
  have w: "concat (map word_operands (vec_lines irq_names)) = map slot_word irq_names"
    using assms(2)
    by (induction irq_names) (simp_all add: vec_lines_def word_operands_vec_line)
  show ?thesis
    unfolding vector_table_def startup_lines[OF assms] table_lines
    by (simp only: map_append concat_append core_words w)
qed

subsection \<open>The weak aliases\<close>

lemma pairs_snoc_Cons: "pairs (xs @ y # ys) = pairs (xs @ [y]) @ pairs (y # ys)"
proof (induction xs)
  case Nil
  then show ?case by simp
next
  case (Cons x xs)
  then show ?case by (cases xs) simp_all
qed

lemma aliases_skip:
  assumes "\<forall>x\<in>set xs. \<not> prefix ''.weak '' x"
  shows "filter is_weak_alias (pairs (xs @ ys)) = filter is_weak_alias (pairs ys)"
  using assms
proof (induction xs)
  case Nil
  then show ?case by simp
next
  case (Cons x xs)
  show ?case
  proof (cases "xs @ ys")
    case Nil
    then show ?thesis by simp
  next
    case (Cons z zs)
    have "pairs ((x # xs) @ ys) = (x, z) # pairs (xs @ ys)"
      using Cons by simp
    moreover have "\<not> is_weak_alias (x, z)"
      using Cons.prems by (simp add: is_weak_alias_def)
    ultimately show ?thesis
      using Cons.IH Cons.prems by simp
  qed
qed

lemma aliases_append:
  assumes "xs \<noteq> []" and "\<not> prefix ''.weak '' (last xs)"
  shows "filter is_weak_alias (pairs (xs @ ys)) =
           filter is_weak_alias (pairs xs) @ filter is_weak_alias (pairs ys)"
proof (cases ys)
  case Nil
  then show ?thesis by simp
next
  case (Cons y ys')
  from assms(1) obtain bs l where xs: "xs = bs @ [l]"
    by (metis append_butlast_last_id)
  have "pairs (xs @ ys) = pairs (bs @ l # y # ys')"
    unfolding xs Cons by simp
  also have "\<dots> = pairs (bs @ [l]) @ pairs (l # y # ys')"
    by (rule pairs_snoc_Cons)
  also have "\<dots> = pairs xs @ (l, y) # pairs ys"
    unfolding xs Cons by simp
  finally show ?thesis
    using assms(2) unfolding xs by (simp add: is_weak_alias_def)
qed

lemma aliases_alias_lines:
  "map (\<lambda>p. drop 6 (fst p)) (filter is_weak_alias (pairs (alias_lines ns @ r)))
     = ns @ map (\<lambda>p. drop 6 (fst p)) (filter is_weak_alias (pairs r))"
proof (induction ns)
  case Nil
  then show ?case by (simp add: alias_lines_def)
next
  case (Cons n ns)
  let ?two = "[''.weak '' @ n, ''.thumb_set '' @ n @ '', Default_Handler'']"
  have a: "alias_lines (n # ns) @ r = ?two @ (alias_lines ns @ r)"
    by (simp add: alias_lines_def)
  have l: "\<not> prefix ''.weak '' (last ?two)" by simp
  have t: "filter is_weak_alias (pairs ?two) = [(''.weak '' @ n, ''.thumb_set '' @ n @ '', Default_Handler'')]"
    by (simp add: is_weak_alias_def)
  have "filter is_weak_alias (pairs (alias_lines (n # ns) @ r)) =
          (''.weak '' @ n, ''.thumb_set '' @ n @ '', Default_Handler'')
          # filter is_weak_alias (pairs (alias_lines ns @ r))"
    unfolding a using aliases_append[of ?two, OF _ l] t by simp
  then show ?case using Cons.IH by simp
qed

lemma handlers_aliases:
  "map (\<lambda>p. drop 6 (fst p)) (filter is_weak_alias (pairs startup_handlers)) =
     [''NMI_Handler'', ''HardFault_Handler'', ''MemManage_Handler'', ''BusFault_Handler'',
      ''UsageFault_Handler'', ''SVC_Handler'', ''DebugMon_Handler'', ''PendSV_Handler'',
      ''SysTick_Handler'', ''SystemInit'']"
  by (simp add: startup_handlers_def is_weak_alias_def)

lemma head_not_weak: "\<forall>x\<in>set (startup_vectors_head core). \<not> prefix ''.weak '' x"
  by (simp add: startup_vectors_head_def)

lemma vec_not_weak:
  "\<forall>x\<in>set (if irq_names = [] then [[]] else vec_lines irq_names). \<not> prefix ''.weak '' x"
  by (auto simp: vec_lines_def vec_line_def split: option.splits)

lemma weak_aliases_eq:
  assumes "newline \<notin> set core" and "list_all well_named irq_names"
  shows "weak_aliases (gen_startup core irq_names) =
     [''NMI_Handler'', ''HardFault_Handler'', ''MemManage_Handler'', ''BusFault_Handler'',
      ''UsageFault_Handler'', ''SVC_Handler'', ''DebugMon_Handler'', ''PendSV_Handler'',
      ''SysTick_Handler'', ''SystemInit'']
     @ names_of irq_names"
proof -
  let ?A = "if names_of irq_names = [] then [[]] else alias_lines (names_of irq_names)"
  let ?f = "\<lambda>ls. map (\<lambda>p. drop 6 (fst p)) (filter is_weak_alias (pairs ls))"
  have hne: "startup_handlers \<noteq> []" and hl: "\<not> prefix ''.weak '' (last startup_handlers)"
    by (simp_all add: startup_handlers_def)
  have tail: "?f (?A @ [[]]) = names_of irq_names"
  proof (cases "names_of irq_names = []")
    case True
    then show ?thesis by (simp add: is_weak_alias_def)
  next
    case False
    then show ?thesis
      using aliases_alias_lines[of "names_of irq_names" "[[]]"] by simp
  qed
  have "?f (split newline (gen_startup core irq_names))
          = ?f (startup_handlers @ (?A @ [[]]))"
    unfolding startup_lines[OF assms]
    using aliases_skip[OF head_not_weak] aliases_skip[OF vec_not_weak]
    by (simp only: append_assoc)
  also have "\<dots> = ?f startup_handlers @ ?f (?A @ [[]])"
    using aliases_append[OF hne hl] by simp
  finally show ?thesis
    unfolding weak_aliases_def handlers_aliases tail .
qed

lemma names_of_well_named:
  assumes "list_all well_named irq_names"
  shows "names_of irq_names = [n. Some n \<leftarrow> irq_names]"
  using assms
  by (induction irq_names)
     (auto simp: names_of_def truthy_def well_named_def is_symbol_def split: option.splits)

text \<open>
  Claim C1. For a core name on one line and an interrupt table whose names are assembler
  symbols, the vector table of the generated startup file is the 16 core slots (stack top,
  reset, NMI, hard fault, mem-manage, bus fault, usage fault, four zero words, SVCall,
  debug monitor, one zero word, PendSV, SysTick) followed by one word for each entry of the
  table, in order: its length is 16 plus the length of the table, the entry at index
  \<open>i\<close> is the word at index \<open>16 + i\<close>, a name for a named entry and a zero word for
  \<open>None\<close>. The weak aliases to the default handler are those of the ten core names
  followed by one for each named entry, in order, and none for \<open>None\<close>.
\<close>

theorem gen_startup_vector_table:
  assumes "newline \<notin> set core" and "list_all well_named irq_names"
  shows "vector_table (gen_startup core irq_names) =
           [''_estack'', ''Reset_Handler'', ''NMI_Handler'', ''HardFault_Handler'',
            ''MemManage_Handler'', ''BusFault_Handler'', ''UsageFault_Handler'',
            ''0'', ''0'', ''0'', ''0'', ''SVC_Handler'', ''DebugMon_Handler'', ''0'',
            ''PendSV_Handler'', ''SysTick_Handler'']
           @ map slot_word irq_names
       \<and> length (vector_table (gen_startup core irq_names)) = 16 + length irq_names
       \<and> (\<forall>i<length irq_names.
             vector_table (gen_startup core irq_names) ! (16 + i) =
               (case irq_names ! i of None \<Rightarrow> ''0'' | Some n \<Rightarrow> n))
       \<and> weak_aliases (gen_startup core irq_names) =
           [''NMI_Handler'', ''HardFault_Handler'', ''MemManage_Handler'',
            ''BusFault_Handler'', ''UsageFault_Handler'', ''SVC_Handler'',
            ''DebugMon_Handler'', ''PendSV_Handler'', ''SysTick_Handler'', ''SystemInit'']
           @ [n. Some n \<leftarrow> irq_names]"
proof -
  let ?core = "[''_estack'', ''Reset_Handler'', ''NMI_Handler'', ''HardFault_Handler'',
            ''MemManage_Handler'', ''BusFault_Handler'', ''UsageFault_Handler'',
            ''0'', ''0'', ''0'', ''0'', ''SVC_Handler'', ''DebugMon_Handler'', ''0'',
            ''PendSV_Handler'', ''SysTick_Handler'']"
  have v: "vector_table (gen_startup core irq_names) = ?core @ map slot_word irq_names"
    using assms by (rule vector_table_eq)
  have c: "length ?core = 16" by simp
  have l: "length (vector_table (gen_startup core irq_names)) = 16 + length irq_names"
    unfolding v by simp
  have n: "\<forall>i<length irq_names.
             vector_table (gen_startup core irq_names) ! (16 + i) =
               (case irq_names ! i of None \<Rightarrow> ''0'' | Some n \<Rightarrow> n)"
  proof (intro allI impI)
    fix i assume i: "i < length irq_names"
    have "(?core @ map slot_word irq_names) ! (length ?core + i) = map slot_word irq_names ! i"
      by (rule nth_append_length_plus)
    then show "vector_table (gen_startup core irq_names) ! (16 + i) =
               (case irq_names ! i of None \<Rightarrow> ''0'' | Some n \<Rightarrow> n)"
      unfolding v c using i by (simp add: slot_word_def)
  qed
  have w: "weak_aliases (gen_startup core irq_names) =
           [''NMI_Handler'', ''HardFault_Handler'', ''MemManage_Handler'',
            ''BusFault_Handler'', ''UsageFault_Handler'', ''SVC_Handler'',
            ''DebugMon_Handler'', ''PendSV_Handler'', ''SysTick_Handler'', ''SystemInit'']
           @ [n. Some n \<leftarrow> irq_names]"
    using weak_aliases_eq[OF assms] names_of_well_named[OF assms(2)] by simp
  show ?thesis
    by (intro conjI v l n w)
qed

lemma family_tables_well_named:
  "list_all well_named F0_IRQ_NAMES" "list_all well_named F1_IRQ_NAMES"
  "list_all well_named F3_IRQ_NAMES" "list_all well_named F4_IRQ_NAMES"
  by code_simp+

theorem gen_startup_vector_table_witness:
  "newline \<notin> set ''cortex-m0'' \<and> list_all well_named F0_IRQ_NAMES
   \<and> length (vector_table (gen_startup ''cortex-m0'' F0_IRQ_NAMES)) = 48
   \<and> vector_table (gen_startup ''cortex-m0'' F0_IRQ_NAMES) ! 16 = ''WWDG_IRQHandler''
   \<and> length (weak_aliases (gen_startup ''cortex-m0'' F0_IRQ_NAMES)) = 42"
proof -
  have c: "newline \<notin> set ''cortex-m0''" by (simp add: newline_def)
  have t: "list_all well_named F0_IRQ_NAMES" by (rule family_tables_well_named)
  have len: "length F0_IRQ_NAMES = 32" "F0_IRQ_NAMES ! 0 = Some ''WWDG_IRQHandler''"
    "length [n. Some n \<leftarrow> F0_IRQ_NAMES] = 32"
    by (simp_all add: F0_IRQ_NAMES_def)
  from gen_startup_vector_table[OF c t] have
    a: "length (vector_table (gen_startup ''cortex-m0'' F0_IRQ_NAMES)) = 16 + length F0_IRQ_NAMES"
    and b: "\<forall>i<length F0_IRQ_NAMES.
             vector_table (gen_startup ''cortex-m0'' F0_IRQ_NAMES) ! (16 + i) =
               (case F0_IRQ_NAMES ! i of None \<Rightarrow> ''0'' | Some n \<Rightarrow> n)"
    and d: "weak_aliases (gen_startup ''cortex-m0'' F0_IRQ_NAMES) =
           [''NMI_Handler'', ''HardFault_Handler'', ''MemManage_Handler'',
            ''BusFault_Handler'', ''UsageFault_Handler'', ''SVC_Handler'',
            ''DebugMon_Handler'', ''PendSV_Handler'', ''SysTick_Handler'', ''SystemInit'']
           @ [n. Some n \<leftarrow> F0_IRQ_NAMES]"
    by blast+
  from b have "0 < length F0_IRQ_NAMES \<longrightarrow>
      vector_table (gen_startup ''cortex-m0'' F0_IRQ_NAMES) ! (16 + 0) =
        (case F0_IRQ_NAMES ! 0 of None \<Rightarrow> ''0'' | Some n \<Rightarrow> n)"
    by blast
  then have e: "vector_table (gen_startup ''cortex-m0'' F0_IRQ_NAMES) ! 16 = ''WWDG_IRQHandler''"
    unfolding len by simp
  have a': "length (vector_table (gen_startup ''cortex-m0'' F0_IRQ_NAMES)) = 48"
    unfolding a len by simp
  have f: "length (weak_aliases (gen_startup ''cortex-m0'' F0_IRQ_NAMES)) = 42"
    unfolding d length_append len by simp
  show ?thesis
    by (intro conjI c t a' e f)
qed


end
